theory Spec2Isabelle
  imports Main
begin

text \<open>
  A shallow embedding of the Keycloak client's user operations (\<^verbatim>\<open>user.go\<close>) and of its
  requesting-party and realm-role operations: every function of these two sources is a
  definition of its own name. The functions they call and the sources do not contain
  are parameters (the record \<open>env\<close>) or, where a statement needs their behaviour, are
  modelled from the spec and marked so.
\<close>

section \<open>Go values: errors, pointers and the cells behind them\<close>

text \<open>
  The operations of \<^verbatim>\<open>user.go\<close> and of the realm-role file return Go \<^verbatim>\<open>error\<close> values built
  with \<^verbatim>\<open>github.com/pkg/errors\<close>. \<open>New s\<close> is \<^verbatim>\<open>errors.New(s)\<close>, \<open>Wrap e s\<close> is
  \<^verbatim>\<open>errors.Wrap(e, s)\<close> for a non-nil \<open>e\<close> (the sources only wrap inside an
  \<^verbatim>\<open>err != nil\<close> branch), \<open>Status c b\<close> is a failure that carries an HTTP status code and the
  response body, and \<open>Foreign s\<close> is any error made outside these sources (by the HTTP
  client or the JSON encoder). A Go \<^verbatim>\<open>error\<close> that may be nil is an \<open>error option\<close>.
\<close>

datatype error = New string | Wrap error string | Status int string | Foreign string

fun wraps :: "error \<Rightarrow> string \<Rightarrow> bool" where
  "wraps (Wrap e m) s = (m = s \<or> wraps e s)"
| "wraps (New m) s = False"
| "wraps (Status c b) s = False"
| "wraps (Foreign m) s = False"

text \<open>
  A Go pointer (\<^verbatim>\<open>*string\<close>, \<^verbatim>\<open>*bool\<close>, \<^verbatim>\<open>*[]string\<close>) is an address or nil. The cells the
  pointers refer to are the elements of a store; allocation appends a cell, and its
  address is its index. \<open>deref\<close> reads a cell; an address outside the store does not occur
  for a Go pointer and reads as \<open>None\<close>.
\<close>

type_synonym addr = nat

type_synonym ptr = "addr option"

datatype cell = StringCell string | BoolCell bool | StringsCell "string list"

type_synonym heap = "cell list"

definition deref :: "heap \<Rightarrow> addr \<Rightarrow> cell option" where
  "deref h a = (if a < length h then Some (h ! a) else None)"

definition alloc :: "cell \<Rightarrow> heap \<Rightarrow> ptr \<times> heap" where
  "alloc c h = (Some (length h), h @ [c])"

text \<open>
  Constants of \<^verbatim>\<open>net/http\<close> and of the HTTP client library (\<^verbatim>\<open>resty.MethodGet\<close> and so on).
\<close>

definition StatusBadRequest :: int where
  "StatusBadRequest = 400"

definition StatusInternalServerError :: int where
  "StatusInternalServerError = 500"

definition MethodGet :: string where
  "MethodGet = ''GET''"

definition MethodPost :: string where
  "MethodPost = ''POST''"

definition MethodPut :: string where
  "MethodPut = ''PUT''"

definition MethodDelete :: string where
  "MethodDelete = ''DELETE''"

section \<open>Data-transfer structures\<close>

text \<open>
  The declarations of the data-transfer structures are not among the sources. A structure
  the sources only pass on (\<^verbatim>\<open>Role\<close>, \<^verbatim>\<open>FederatedIdentityRepresentation\<close>, the params
  structures handed to \<^verbatim>\<open>GetQueryParams\<close>) is a type parameter. A structure whose fields
  the sources name is a record with those fields; for \<^verbatim>\<open>User\<close> the record is extensible, so
  a user carries any further fields.
\<close>

record User =
  ID :: ptr

record RequestingPartyTokenOptions =
  GrantType :: ptr
  Audience :: ptr
  ResponseMode :: ptr
  Permissions :: ptr

record SetPasswordRequest =
  Password :: ptr
  Temporary :: ptr
  Type' :: ptr

record Config =
  openIDConnect :: string

record 'c GoKeycloak =
  Config :: "'c Config_scheme"

section \<open>The HTTP client\<close>

text \<open>
  A request of the HTTP client library is built step by step (\<^verbatim>\<open>SetBody\<close>, \<^verbatim>\<open>SetResult\<close>,
  \<^verbatim>\<open>SetQueryParams\<close>, \<^verbatim>\<open>SetFormData\<close>, \<^verbatim>\<open>SetFormDataFromValues\<close>) and sent by \<^verbatim>\<open>Get\<close>,
  \<^verbatim>\<open>Post\<close>, \<^verbatim>\<open>Put\<close> or \<^verbatim>\<open>Delete\<close>, which fix the verb and the URL. Query parameters and form
  values are ordered lists of key and value; a key may have several form values.
  \<open>result_type\<close> names the Go type of the variable given to \<^verbatim>\<open>SetResult\<close>.
\<close>

datatype result_type =
    TUser | TUsers | TInt | TGroups | TRole | TRoles | TSessions | TFederatedIdentities
  | TPermissions | TDecision | TJWT

datatype ('a, 'r, 'f) body =
    NoBody
  | UserBody "'a User_scheme"
  | RoleBody 'r
  | RolesBody "'r list"
  | FederatedIdentityBody 'f
  | SetPasswordBody SetPasswordRequest

record ('x, 'a, 'r, 'f) request =
  Context :: 'x
  AuthToken :: string
  Method :: string
  URL :: string
  Body :: "('a, 'r, 'f) body"
  QueryParam :: "(string \<times> string) list"
  Form :: "(string \<times> string) list"
  Result :: "result_type option"

record response =
  StatusCode :: int
  RespBody :: string
  Header :: "(string \<times> string) list"

text \<open>
  What an operation hands back besides the status and the error: nothing (\<open>NoValue\<close>, for
  the operations of type \<^verbatim>\<open>(int, error)\<close>), a nil pointer or nil slice, a string, an int,
  or the content of the result variable after the HTTP client has decoded the response
  into it.
\<close>

datatype go_value = NoValue | GoNil | GoString string | GoInt int | Decoded result_type response

record ('x, 'a, 'r, 'f) exchange =
  sent :: "('x, 'a, 'r, 'f) request"
  received :: "response option"
  failure :: "error option"

text \<open>
  The world an operation runs in: the client value behind the receiver pointer
  \<^verbatim>\<open>g *GoKeycloak\<close>, the cells behind the pointers of the caller's structures, and the
  exchanges with the server so far, oldest first.
\<close>

record ('c, 'm, 'x, 'a, 'r, 'f) world =
  client :: "('c, 'm) GoKeycloak_scheme"
  heap :: heap
  exchanges :: "('x, 'a, 'r, 'f) exchange list"

text \<open>
  The environment holds what the sources call and do not define. \<open>net\<close> is one round trip
  of the HTTP client: the response object and the transport error for a request, in the
  current world. The response is a pointer: the client library hands back a response
  object when the server answered and also when the connection failed, and nil when the
  request could not be built or a hook refused it before it was sent. The other fields
  are functions of the repository that are not among the sources (\<^verbatim>\<open>client.go\<close>,
  \<^verbatim>\<open>utils.go\<close>, \<^verbatim>\<open>models.go\<close>); they are taken as given, free of side effects.
  \<^verbatim>\<open>getAdminRealmURL\<close> and \<^verbatim>\<open>getRealmURL\<close> take the path segments as a list;
  \<^verbatim>\<open>FormData\<close> reads the options through the store and gives the entries of its map.
\<close>

record ('c, 'm, 'x, 'a, 'r, 'f, 'p) env =
  net :: "('c, 'm, 'x, 'a, 'r, 'f) world \<Rightarrow> ('x, 'a, 'r, 'f) request \<Rightarrow> response option \<times> error option"
  GetRequestWithBearerAuth :: "('c, 'm) GoKeycloak_scheme \<Rightarrow> 'x \<Rightarrow> string \<Rightarrow> ('x, 'a, 'r, 'f) request"
  getAdminRealmURL :: "('c, 'm) GoKeycloak_scheme \<Rightarrow> string \<Rightarrow> string list \<Rightarrow> string"
  getRealmURL :: "('c, 'm) GoKeycloak_scheme \<Rightarrow> string \<Rightarrow> string list \<Rightarrow> string"
  getID :: "response \<Rightarrow> string"
  GetQueryParams :: "'p \<Rightarrow> error + (string \<times> string) list"
  FormData :: "heap \<Rightarrow> RequestingPartyTokenOptions \<Rightarrow> (string \<times> string) list"
  checkForError :: "response option \<Rightarrow> error option \<Rightarrow> string \<Rightarrow> error option"

text \<open>
  An operation takes the world and gives its outcome with the world it leaves: it returns
  its Go results, or it panics. Every operation of the sources reads
  \<^verbatim>\<open>resp.StatusCode()\<close> in its return statements, with no test of \<^verbatim>\<open>resp\<close>; on a nil \<^verbatim>\<open>resp\<close>
  this is a nil pointer dereference. \<open>return_with resp f\<close> is such a return statement: the
  results \<open>f r\<close> of the response object \<open>r\<close>, or the panic.
\<close>

datatype 'v outcome = Panic | Return 'v

definition return_with :: "response option \<Rightarrow> (response \<Rightarrow> 'v) \<Rightarrow> 'v outcome" where
  "return_with resp f = (case resp of None \<Rightarrow> Panic | Some r \<Rightarrow> Return (f r))"

type_synonym ('c, 'm, 'x, 'a, 'r, 'f, 'v) op =
  "('c, 'm, 'x, 'a, 'r, 'f) world \<Rightarrow> 'v \<times> ('c, 'm, 'x, 'a, 'r, 'f) world"

text \<open>
  \<^verbatim>\<open>url.Values.Set\<close> replaces the values of a key, \<^verbatim>\<open>url.Values.Add\<close> appends one.
  \<^verbatim>\<open>SetQueryParams\<close> and \<^verbatim>\<open>SetFormData\<close> set every pair of a Go map (given as the list
  of its entries); \<^verbatim>\<open>SetFormDataFromValues\<close> adds every value of every key.
\<close>

definition values_Set :: "string \<Rightarrow> string \<Rightarrow> (string \<times> string) list \<Rightarrow> (string \<times> string) list" where
  "values_Set k v f = filter (\<lambda>kv. fst kv \<noteq> k) f @ [(k, v)]"

definition values_Add :: "string \<Rightarrow> string \<Rightarrow> (string \<times> string) list \<Rightarrow> (string \<times> string) list" where
  "values_Add k v f = f @ [(k, v)]"

definition SetBody :: "('a, 'r, 'f) body \<Rightarrow> ('x, 'a, 'r, 'f) request \<Rightarrow> ('x, 'a, 'r, 'f) request" where
  "SetBody b r = r\<lparr>Body := b\<rparr>"

definition SetResult :: "result_type \<Rightarrow> ('x, 'a, 'r, 'f) request \<Rightarrow> ('x, 'a, 'r, 'f) request" where
  "SetResult t r = r\<lparr>Result := Some t\<rparr>"

definition SetQueryParams :: "(string \<times> string) list \<Rightarrow> ('x, 'a, 'r, 'f) request \<Rightarrow> ('x, 'a, 'r, 'f) request" where
  "SetQueryParams m r = r\<lparr>QueryParam := fold (\<lambda>kv. values_Set (fst kv) (snd kv)) m (QueryParam r)\<rparr>"

definition SetFormData :: "(string \<times> string) list \<Rightarrow> ('x, 'a, 'r, 'f) request \<Rightarrow> ('x, 'a, 'r, 'f) request" where
  "SetFormData m r = r\<lparr>Form := fold (\<lambda>kv. values_Set (fst kv) (snd kv)) m (Form r)\<rparr>"

definition SetFormDataFromValues :: "(string \<times> string list) list \<Rightarrow> ('x, 'a, 'r, 'f) request \<Rightarrow> ('x, 'a, 'r, 'f) request" where
  "SetFormDataFromValues vs r =
     r\<lparr>Form := fold (\<lambda>kv f. fold (values_Add (fst kv)) (snd kv) f) vs (Form r)\<rparr>"

text \<open>
  Sending a request: the verb and the URL are written into the request, the round trip
  yields the response object and the transport error, and the exchange is recorded.
  Every one of \<^verbatim>\<open>Get\<close>, \<^verbatim>\<open>Post\<close>, \<^verbatim>\<open>Put\<close>, \<^verbatim>\<open>Delete\<close> is one such step.
\<close>

definition Execute ::
  "('c, 'm, 'x, 'a, 'r, 'f, 'p) env \<Rightarrow> string \<Rightarrow> string \<Rightarrow> ('x, 'a, 'r, 'f) request \<Rightarrow> ('c, 'm, 'x, 'a, 'r, 'f, response option \<times> error option) op" where
  "Execute E m u r w =
     (let r' = r\<lparr>Method := m, URL := u\<rparr>;
          (resp, err) = net E w r'
      in ((resp, err),
          w\<lparr>exchanges := exchanges w @ [\<lparr>sent = r', received = resp, failure = err\<rparr>]\<rparr>))"

definition Get :: "('c, 'm, 'x, 'a, 'r, 'f, 'p) env \<Rightarrow> string \<Rightarrow> ('x, 'a, 'r, 'f) request \<Rightarrow> ('c, 'm, 'x, 'a, 'r, 'f, response option \<times> error option) op" where
  "Get E u r = Execute E MethodGet u r"

definition Post :: "('c, 'm, 'x, 'a, 'r, 'f, 'p) env \<Rightarrow> string \<Rightarrow> ('x, 'a, 'r, 'f) request \<Rightarrow> ('c, 'm, 'x, 'a, 'r, 'f, response option \<times> error option) op" where
  "Post E u r = Execute E MethodPost u r"

definition Put :: "('c, 'm, 'x, 'a, 'r, 'f, 'p) env \<Rightarrow> string \<Rightarrow> ('x, 'a, 'r, 'f) request \<Rightarrow> ('c, 'm, 'x, 'a, 'r, 'f, response option \<times> error option) op" where
  "Put E u r = Execute E MethodPut u r"

definition Delete :: "('c, 'm, 'x, 'a, 'r, 'f, 'p) env \<Rightarrow> string \<Rightarrow> ('x, 'a, 'r, 'f) request \<Rightarrow> ('c, 'm, 'x, 'a, 'r, 'f, response option \<times> error option) op" where
  "Delete E u r = Execute E MethodDelete u r"

section \<open>Pointer helpers\<close>

text \<open>
  \<open>addressOf\<close> is Go's \<^verbatim>\<open>&v\<close> on a local variable or parameter: the variable becomes a
  cell of its own.
\<close>

definition addressOf :: "cell \<Rightarrow> ('c, 'm, 'x, 'a, 'r, 'f, ptr) op" where
  "addressOf c w = (let (p, h) = alloc c (heap w) in (p, w\<lparr>heap := h\<rparr>))"

text \<open>
  Modelled from the spec: \<^verbatim>\<open>StringP\<close> (\<^verbatim>\<open>utils.go\<close>) is not among the sources. The spec's
  data model is "optional field present or absent": \<^verbatim>\<open>StringP\<close> makes a present field, a
  pointer to a new cell that holds the string.
\<close>

definition StringP :: "string \<Rightarrow> ('c, 'm, 'x, 'a, 'r, 'f, ptr) op" where
  "StringP s w = addressOf (StringCell s) w"

text \<open>
  Modelled from the spec: \<^verbatim>\<open>PString\<close> (\<^verbatim>\<open>utils.go\<close>) is not among the sources. It reads an
  optional string field: the string of a present field, the empty string for an absent
  one.
\<close>

definition PString :: "heap \<Rightarrow> ptr \<Rightarrow> string" where
  "PString h p =
     (case p of
        None \<Rightarrow> ''''
      | Some a \<Rightarrow> (case deref h a of Some (StringCell s) \<Rightarrow> s | _ \<Rightarrow> ''''))"

text \<open>
  Modelled from the spec: \<^verbatim>\<open>PStringSlice\<close> (\<^verbatim>\<open>utils.go\<close>) is not among the sources. It
  reads an optional field of type \<^verbatim>\<open>*[]string\<close>: the slice of a present field, the empty
  slice for an absent one.
\<close>

definition PStringSlice :: "heap \<Rightarrow> ptr \<Rightarrow> string list" where
  "PStringSlice h p =
     (case p of
        None \<Rightarrow> []
      | Some a \<Rightarrow> (case deref h a of Some (StringsCell xs) \<Rightarrow> xs | _ \<Rightarrow> []))"

section \<open>Requesting party and realm roles\<close>

definition getRequestingParty ::
  "('c, 'm, 'x, 'a, 'r, 'f, 'p) env \<Rightarrow> 'x \<Rightarrow> string \<Rightarrow> string \<Rightarrow> RequestingPartyTokenOptions \<Rightarrow> result_type \<Rightarrow>
     ('c, 'm, 'x, 'a, 'r, 'f, response option \<times> error option) op" where
  "getRequestingParty E ctx token realm options res w =
     Post E (getRealmURL E (client w) realm [openIDConnect (Config (client w)), ''token''])
       (SetResult res
         (SetFormDataFromValues [(''permission'', PStringSlice (heap w) (Permissions options))]
           (SetFormData (FormData E (heap w) options)
             (GetRequestWithBearerAuth E (client w) ctx token)))) w"

definition GetRequestingPartyPermissions ::
  "('c, 'm, 'x, 'a, 'r, 'f, 'p) env \<Rightarrow> 'x \<Rightarrow> string \<Rightarrow> string \<Rightarrow> RequestingPartyTokenOptions \<Rightarrow>
     ('c, 'm, 'x, 'a, 'r, 'f, (int \<times> go_value \<times> error option) outcome) op" where
  "GetRequestingPartyPermissions E ctx token realm options w =
     (let errMessage = ''could not get requesting party token'';
          (p, w) = StringP ''permissions'' w;
          options = options\<lparr>ResponseMode := p\<rparr>;
          ((resp, err), w) = getRequestingParty E ctx token realm options TPermissions w
      in case checkForError E resp err errMessage of
           Some err' \<Rightarrow> (return_with resp (\<lambda>r. (StatusCode r, GoNil, Some err')), w)
         | None \<Rightarrow> (return_with resp (\<lambda>r. (StatusCode r, Decoded TPermissions r, None)), w))"

definition GetRequestingPartyPermissionDecision ::
  "('c, 'm, 'x, 'a, 'r, 'f, 'p) env \<Rightarrow> 'x \<Rightarrow> string \<Rightarrow> string \<Rightarrow> RequestingPartyTokenOptions \<Rightarrow>
     ('c, 'm, 'x, 'a, 'r, 'f, (int \<times> go_value \<times> error option) outcome) op" where
  "GetRequestingPartyPermissionDecision E ctx token realm options w =
     (let errMessage = ''could not get requesting party token'';
          (p, w) = StringP ''decision'' w;
          options = options\<lparr>ResponseMode := p\<rparr>;
          ((resp, err), w) = getRequestingParty E ctx token realm options TDecision w
      in case checkForError E resp err errMessage of
           Some err' \<Rightarrow> (return_with resp (\<lambda>r. (StatusCode r, GoNil, Some err')), w)
         | None \<Rightarrow> (return_with resp (\<lambda>r. (StatusCode r, Decoded TDecision r, None)), w))"

definition CreateRealmRole ::
  "('c, 'm, 'x, 'a, 'r, 'f, 'p) env \<Rightarrow> 'x \<Rightarrow> string \<Rightarrow> string \<Rightarrow> 'r \<Rightarrow> ('c, 'm, 'x, 'a, 'r, 'f, (int \<times> string \<times> error option) outcome) op" where
  "CreateRealmRole E ctx token realm role w =
     (let errMessage = ''could not create realm role'';
          ((resp, err), w) =
            Post E (getAdminRealmURL E (client w) realm [''roles''])
              (SetBody (RoleBody role) (GetRequestWithBearerAuth E (client w) ctx token)) w
      in case checkForError E resp err errMessage of
           Some err' \<Rightarrow> (return_with resp (\<lambda>r. (StatusCode r, '''', Some err')), w)
         | None \<Rightarrow> (return_with resp (\<lambda>r. (StatusCode r, getID E r, None)), w))"

definition GetRealmRole ::
  "('c, 'm, 'x, 'a, 'r, 'f, 'p) env \<Rightarrow> 'x \<Rightarrow> string \<Rightarrow> string \<Rightarrow> string \<Rightarrow> ('c, 'm, 'x, 'a, 'r, 'f, (int \<times> go_value \<times> error option) outcome) op" where
  "GetRealmRole E ctx token realm roleName w =
     (let errMessage = ''could not get realm role'';
          ((resp, err), w) =
            Get E (getAdminRealmURL E (client w) realm [''roles'', roleName])
              (SetResult TRole (GetRequestWithBearerAuth E (client w) ctx token)) w
      in case checkForError E resp err errMessage of
           Some err' \<Rightarrow> (return_with resp (\<lambda>r. (StatusCode r, GoNil, Some err')), w)
         | None \<Rightarrow> (return_with resp (\<lambda>r. (StatusCode r, Decoded TRole r, None)), w))"

definition GetRealmRoleByID ::
  "('c, 'm, 'x, 'a, 'r, 'f, 'p) env \<Rightarrow> 'x \<Rightarrow> string \<Rightarrow> string \<Rightarrow> string \<Rightarrow> ('c, 'm, 'x, 'a, 'r, 'f, (int \<times> go_value \<times> error option) outcome) op" where
  "GetRealmRoleByID E ctx token realm roleID w =
     (let errMessage = ''could not get realm role'';
          ((resp, err), w) =
            Get E (getAdminRealmURL E (client w) realm [''roles-by-id'', roleID])
              (SetResult TRole (GetRequestWithBearerAuth E (client w) ctx token)) w
      in case checkForError E resp err errMessage of
           Some err' \<Rightarrow> (return_with resp (\<lambda>r. (StatusCode r, GoNil, Some err')), w)
         | None \<Rightarrow> (return_with resp (\<lambda>r. (StatusCode r, Decoded TRole r, None)), w))"

definition GetRealmRoles ::
  "('c, 'm, 'x, 'a, 'r, 'f, 'p) env \<Rightarrow> 'x \<Rightarrow> string \<Rightarrow> string \<Rightarrow> 'p \<Rightarrow> ('c, 'm, 'x, 'a, 'r, 'f, (int \<times> go_value \<times> error option) outcome) op" where
  "GetRealmRoles E ctx token realm params w =
     (let errMessage = ''could not get realm roles''
      in case GetQueryParams E params of
           Inl err \<Rightarrow> (Return (StatusInternalServerError, GoNil, Some (Wrap err errMessage)), w)
         | Inr queryParams \<Rightarrow>
             (let ((resp, err), w) =
                    Get E (getAdminRealmURL E (client w) realm [''roles''])
                      (SetQueryParams queryParams
                        (SetResult TRoles (GetRequestWithBearerAuth E (client w) ctx token))) w
              in case checkForError E resp err errMessage of
                   Some err' \<Rightarrow> (return_with resp (\<lambda>r. (StatusCode r, GoNil, Some err')), w)
                 | None \<Rightarrow> (return_with resp (\<lambda>r. (StatusCode r, Decoded TRoles r, None)), w)))"

definition GetRealmRolesByUserID ::
  "('c, 'm, 'x, 'a, 'r, 'f, 'p) env \<Rightarrow> 'x \<Rightarrow> string \<Rightarrow> string \<Rightarrow> string \<Rightarrow> ('c, 'm, 'x, 'a, 'r, 'f, (int \<times> go_value \<times> error option) outcome) op" where
  "GetRealmRolesByUserID E ctx token realm userID w =
     (let errMessage = ''could not get realm roles by user id'';
          ((resp, err), w) =
            Get E (getAdminRealmURL E (client w) realm [''users'', userID, ''role-mappings'', ''realm''])
              (SetResult TRoles (GetRequestWithBearerAuth E (client w) ctx token)) w
      in case checkForError E resp err errMessage of
           Some err' \<Rightarrow> (return_with resp (\<lambda>r. (StatusCode r, GoNil, Some err')), w)
         | None \<Rightarrow> (return_with resp (\<lambda>r. (StatusCode r, Decoded TRoles r, None)), w))"

definition GetRealmRolesByGroupID ::
  "('c, 'm, 'x, 'a, 'r, 'f, 'p) env \<Rightarrow> 'x \<Rightarrow> string \<Rightarrow> string \<Rightarrow> string \<Rightarrow> ('c, 'm, 'x, 'a, 'r, 'f, (int \<times> go_value \<times> error option) outcome) op" where
  "GetRealmRolesByGroupID E ctx token realm groupID w =
     (let errMessage = ''could not get realm roles by group id'';
          ((resp, err), w) =
            Get E (getAdminRealmURL E (client w) realm [''groups'', groupID, ''role-mappings'', ''realm''])
              (SetResult TRoles (GetRequestWithBearerAuth E (client w) ctx token)) w
      in case checkForError E resp err errMessage of
           Some err' \<Rightarrow> (return_with resp (\<lambda>r. (StatusCode r, GoNil, Some err')), w)
         | None \<Rightarrow> (return_with resp (\<lambda>r. (StatusCode r, Decoded TRoles r, None)), w))"

definition UpdateRealmRole ::
  "('c, 'm, 'x, 'a, 'r, 'f, 'p) env \<Rightarrow> 'x \<Rightarrow> string \<Rightarrow> string \<Rightarrow> string \<Rightarrow> 'r \<Rightarrow> ('c, 'm, 'x, 'a, 'r, 'f, (int \<times> error option) outcome) op" where
  "UpdateRealmRole E ctx token realm roleName role w =
     (let errMessage = ''could not update realm role'';
          ((resp, err), w) =
            Put E (getAdminRealmURL E (client w) realm [''roles'', roleName])
              (SetBody (RoleBody role) (GetRequestWithBearerAuth E (client w) ctx token)) w
      in (return_with resp (\<lambda>r. (StatusCode r, checkForError E resp err errMessage)), w))"

definition UpdateRealmRoleByID ::
  "('c, 'm, 'x, 'a, 'r, 'f, 'p) env \<Rightarrow> 'x \<Rightarrow> string \<Rightarrow> string \<Rightarrow> string \<Rightarrow> 'r \<Rightarrow> ('c, 'm, 'x, 'a, 'r, 'f, (int \<times> error option) outcome) op" where
  "UpdateRealmRoleByID E ctx token realm roleID role w =
     (let errMessage = ''could not update realm role'';
          ((resp, err), w) =
            Put E (getAdminRealmURL E (client w) realm [''roles-by-id'', roleID])
              (SetBody (RoleBody role) (GetRequestWithBearerAuth E (client w) ctx token)) w
      in (return_with resp (\<lambda>r. (StatusCode r, checkForError E resp err errMessage)), w))"

definition DeleteRealmRole ::
  "('c, 'm, 'x, 'a, 'r, 'f, 'p) env \<Rightarrow> 'x \<Rightarrow> string \<Rightarrow> string \<Rightarrow> string \<Rightarrow> ('c, 'm, 'x, 'a, 'r, 'f, (int \<times> error option) outcome) op" where
  "DeleteRealmRole E ctx token realm roleName w =
     (let errMessage = ''could not delete realm role'';
          ((resp, err), w) =
            Delete E (getAdminRealmURL E (client w) realm [''roles'', roleName])
              (GetRequestWithBearerAuth E (client w) ctx token) w
      in (return_with resp (\<lambda>r. (StatusCode r, checkForError E resp err errMessage)), w))"

definition AddRealmRoleToUser ::
  "('c, 'm, 'x, 'a, 'r, 'f, 'p) env \<Rightarrow> 'x \<Rightarrow> string \<Rightarrow> string \<Rightarrow> string \<Rightarrow> 'r list \<Rightarrow> ('c, 'm, 'x, 'a, 'r, 'f, (int \<times> error option) outcome) op" where
  "AddRealmRoleToUser E ctx token realm userID roles w =
     (let errMessage = ''could not add realm role to user'';
          ((resp, err), w) =
            Post E (getAdminRealmURL E (client w) realm [''users'', userID, ''role-mappings'', ''realm''])
              (SetBody (RolesBody roles) (GetRequestWithBearerAuth E (client w) ctx token)) w
      in (return_with resp (\<lambda>r. (StatusCode r, checkForError E resp err errMessage)), w))"

definition DeleteRealmRoleFromUser ::
  "('c, 'm, 'x, 'a, 'r, 'f, 'p) env \<Rightarrow> 'x \<Rightarrow> string \<Rightarrow> string \<Rightarrow> string \<Rightarrow> 'r list \<Rightarrow> ('c, 'm, 'x, 'a, 'r, 'f, (int \<times> error option) outcome) op" where
  "DeleteRealmRoleFromUser E ctx token realm userID roles w =
     (let errMessage = ''could not delete realm role from user'';
          ((resp, err), w) =
            Delete E (getAdminRealmURL E (client w) realm [''users'', userID, ''role-mappings'', ''realm''])
              (SetBody (RolesBody roles) (GetRequestWithBearerAuth E (client w) ctx token)) w
      in (return_with resp (\<lambda>r. (StatusCode r, checkForError E resp err errMessage)), w))"

definition AddRealmRoleToGroup ::
  "('c, 'm, 'x, 'a, 'r, 'f, 'p) env \<Rightarrow> 'x \<Rightarrow> string \<Rightarrow> string \<Rightarrow> string \<Rightarrow> 'r list \<Rightarrow> ('c, 'm, 'x, 'a, 'r, 'f, (int \<times> error option) outcome) op" where
  "AddRealmRoleToGroup E ctx token realm groupID roles w =
     (let errMessage = ''could not add realm role to group'';
          ((resp, err), w) =
            Post E (getAdminRealmURL E (client w) realm [''groups'', groupID, ''role-mappings'', ''realm''])
              (SetBody (RolesBody roles) (GetRequestWithBearerAuth E (client w) ctx token)) w
      in (return_with resp (\<lambda>r. (StatusCode r, checkForError E resp err errMessage)), w))"

definition DeleteRealmRoleFromGroup ::
  "('c, 'm, 'x, 'a, 'r, 'f, 'p) env \<Rightarrow> 'x \<Rightarrow> string \<Rightarrow> string \<Rightarrow> string \<Rightarrow> 'r list \<Rightarrow> ('c, 'm, 'x, 'a, 'r, 'f, (int \<times> error option) outcome) op" where
  "DeleteRealmRoleFromGroup E ctx token realm groupID roles w =
     (let errMessage = ''could not delete realm role from group'';
          ((resp, err), w) =
            Delete E (getAdminRealmURL E (client w) realm [''groups'', groupID, ''role-mappings'', ''realm''])
              (SetBody (RolesBody roles) (GetRequestWithBearerAuth E (client w) ctx token)) w
      in (return_with resp (\<lambda>r. (StatusCode r, checkForError E resp err errMessage)), w))"

definition AddRealmRoleComposite ::
  "('c, 'm, 'x, 'a, 'r, 'f, 'p) env \<Rightarrow> 'x \<Rightarrow> string \<Rightarrow> string \<Rightarrow> string \<Rightarrow> 'r list \<Rightarrow> ('c, 'm, 'x, 'a, 'r, 'f, (int \<times> error option) outcome) op" where
  "AddRealmRoleComposite E ctx token realm roleName roles w =
     (let errMessage = ''could not add realm role composite'';
          ((resp, err), w) =
            Post E (getAdminRealmURL E (client w) realm [''roles'', roleName, ''composites''])
              (SetBody (RolesBody roles) (GetRequestWithBearerAuth E (client w) ctx token)) w
      in (return_with resp (\<lambda>r. (StatusCode r, checkForError E resp err errMessage)), w))"

definition DeleteRealmRoleComposite ::
  "('c, 'm, 'x, 'a, 'r, 'f, 'p) env \<Rightarrow> 'x \<Rightarrow> string \<Rightarrow> string \<Rightarrow> string \<Rightarrow> 'r list \<Rightarrow> ('c, 'm, 'x, 'a, 'r, 'f, (int \<times> error option) outcome) op" where
  "DeleteRealmRoleComposite E ctx token realm roleName roles w =
     (let errMessage = ''could not delete realm role composite'';
          ((resp, err), w) =
            Delete E (getAdminRealmURL E (client w) realm [''roles'', roleName, ''composites''])
              (SetBody (RolesBody roles) (GetRequestWithBearerAuth E (client w) ctx token)) w
      in (return_with resp (\<lambda>r. (StatusCode r, checkForError E resp err errMessage)), w))"

definition GetCompositeRealmRoles ::
  "('c, 'm, 'x, 'a, 'r, 'f, 'p) env \<Rightarrow> 'x \<Rightarrow> string \<Rightarrow> string \<Rightarrow> string \<Rightarrow> ('c, 'm, 'x, 'a, 'r, 'f, (int \<times> go_value \<times> error option) outcome) op" where
  "GetCompositeRealmRoles E ctx token realm roleName w =
     (let errMessage = ''could not get composite realm roles by role'';
          ((resp, err), w) =
            Get E (getAdminRealmURL E (client w) realm [''roles'', roleName, ''composites''])
              (SetResult TRoles (GetRequestWithBearerAuth E (client w) ctx token)) w
      in case checkForError E resp err errMessage of
           Some err' \<Rightarrow> (return_with resp (\<lambda>r. (StatusCode r, GoNil, Some err')), w)
         | None \<Rightarrow> (return_with resp (\<lambda>r. (StatusCode r, Decoded TRoles r, None)), w))"

definition GetCompositeRolesByRoleID ::
  "('c, 'm, 'x, 'a, 'r, 'f, 'p) env \<Rightarrow> 'x \<Rightarrow> string \<Rightarrow> string \<Rightarrow> string \<Rightarrow> ('c, 'm, 'x, 'a, 'r, 'f, (int \<times> go_value \<times> error option) outcome) op" where
  "GetCompositeRolesByRoleID E ctx token realm roleID w =
     (let errMessage = ''could not get composite client roles by role id'';
          ((resp, err), w) =
            Get E (getAdminRealmURL E (client w) realm [''roles-by-id'', roleID, ''composites''])
              (SetResult TRoles (GetRequestWithBearerAuth E (client w) ctx token)) w
      in case checkForError E resp err errMessage of
           Some err' \<Rightarrow> (return_with resp (\<lambda>r. (StatusCode r, GoNil, Some err')), w)
         | None \<Rightarrow> (return_with resp (\<lambda>r. (StatusCode r, Decoded TRoles r, None)), w))"

definition GetCompositeRealmRolesByRoleID ::
  "('c, 'm, 'x, 'a, 'r, 'f, 'p) env \<Rightarrow> 'x \<Rightarrow> string \<Rightarrow> string \<Rightarrow> string \<Rightarrow> ('c, 'm, 'x, 'a, 'r, 'f, (int \<times> go_value \<times> error option) outcome) op" where
  "GetCompositeRealmRolesByRoleID E ctx token realm roleID w =
     (let errMessage = ''could not get composite client roles by role id'';
          ((resp, err), w) =
            Get E (getAdminRealmURL E (client w) realm [''roles-by-id'', roleID, ''composites'', ''realm''])
              (SetResult TRoles (GetRequestWithBearerAuth E (client w) ctx token)) w
      in case checkForError E resp err errMessage of
           Some err' \<Rightarrow> (return_with resp (\<lambda>r. (StatusCode r, GoNil, Some err')), w)
         | None \<Rightarrow> (return_with resp (\<lambda>r. (StatusCode r, Decoded TRoles r, None)), w))"

definition GetCompositeRealmRolesByUserID ::
  "('c, 'm, 'x, 'a, 'r, 'f, 'p) env \<Rightarrow> 'x \<Rightarrow> string \<Rightarrow> string \<Rightarrow> string \<Rightarrow> ('c, 'm, 'x, 'a, 'r, 'f, (int \<times> go_value \<times> error option) outcome) op" where
  "GetCompositeRealmRolesByUserID E ctx token realm userID w =
     (let errMessage = ''could not get composite client roles by user id'';
          ((resp, err), w) =
            Get E (getAdminRealmURL E (client w) realm [''users'', userID, ''role-mappings'', ''realm'', ''composite''])
              (SetResult TRoles (GetRequestWithBearerAuth E (client w) ctx token)) w
      in case checkForError E resp err errMessage of
           Some err' \<Rightarrow> (return_with resp (\<lambda>r. (StatusCode r, GoNil, Some err')), w)
         | None \<Rightarrow> (return_with resp (\<lambda>r. (StatusCode r, Decoded TRoles r, None)), w))"

definition GetCompositeRealmRolesByGroupID ::
  "('c, 'm, 'x, 'a, 'r, 'f, 'p) env \<Rightarrow> 'x \<Rightarrow> string \<Rightarrow> string \<Rightarrow> string \<Rightarrow> ('c, 'm, 'x, 'a, 'r, 'f, (int \<times> go_value \<times> error option) outcome) op" where
  "GetCompositeRealmRolesByGroupID E ctx token realm groupID w =
     (let errMessage = ''could not get composite client roles by user id'';
          ((resp, err), w) =
            Get E (getAdminRealmURL E (client w) realm [''groups'', groupID, ''role-mappings'', ''realm'', ''composite''])
              (SetResult TRoles (GetRequestWithBearerAuth E (client w) ctx token)) w
      in case checkForError E resp err errMessage of
           Some err' \<Rightarrow> (return_with resp (\<lambda>r. (StatusCode r, GoNil, Some err')), w)
         | None \<Rightarrow> (return_with resp (\<lambda>r. (StatusCode r, Decoded TRoles r, None)), w))"

definition GetAvailableRealmRolesByUserID ::
  "('c, 'm, 'x, 'a, 'r, 'f, 'p) env \<Rightarrow> 'x \<Rightarrow> string \<Rightarrow> string \<Rightarrow> string \<Rightarrow> ('c, 'm, 'x, 'a, 'r, 'f, (int \<times> go_value \<times> error option) outcome) op" where
  "GetAvailableRealmRolesByUserID E ctx token realm userID w =
     (let errMessage = ''could not get available client roles by user id'';
          ((resp, err), w) =
            Get E (getAdminRealmURL E (client w) realm [''users'', userID, ''role-mappings'', ''realm'', ''available''])
              (SetResult TRoles (GetRequestWithBearerAuth E (client w) ctx token)) w
      in case checkForError E resp err errMessage of
           Some err' \<Rightarrow> (return_with resp (\<lambda>r. (StatusCode r, GoNil, Some err')), w)
         | None \<Rightarrow> (return_with resp (\<lambda>r. (StatusCode r, Decoded TRoles r, None)), w))"

definition GetAvailableRealmRolesByGroupID ::
  "('c, 'm, 'x, 'a, 'r, 'f, 'p) env \<Rightarrow> 'x \<Rightarrow> string \<Rightarrow> string \<Rightarrow> string \<Rightarrow> ('c, 'm, 'x, 'a, 'r, 'f, (int \<times> go_value \<times> error option) outcome) op" where
  "GetAvailableRealmRolesByGroupID E ctx token realm groupID w =
     (let errMessage = ''could not get available client roles by user id'';
          ((resp, err), w) =
            Get E (getAdminRealmURL E (client w) realm [''groups'', groupID, ''role-mappings'', ''realm'', ''available''])
              (SetResult TRoles (GetRequestWithBearerAuth E (client w) ctx token)) w
      in case checkForError E resp err errMessage of
           Some err' \<Rightarrow> (return_with resp (\<lambda>r. (StatusCode r, GoNil, Some err')), w)
         | None \<Rightarrow> (return_with resp (\<lambda>r. (StatusCode r, Decoded TRoles r, None)), w))"

text \<open>
  Modelled from the spec: \<^verbatim>\<open>GetRequestingPartyToken\<close>, which \<^verbatim>\<open>EvaluatePermission\<close> calls, is
  not among the sources. The spec describes the permission-evaluation calls as "just
  parameter marshaling plus one HTTP call and one error check": the marshalling and the
  call are \<open>getRequestingParty\<close>, with a \<^verbatim>\<open>JWT\<close> as result variable and no change to the
  options, and the error check is the one of the two sibling operations above, with
  their description.
\<close>

definition GetRequestingPartyToken ::
  "('c, 'm, 'x, 'a, 'r, 'f, 'p) env \<Rightarrow> 'x \<Rightarrow> string \<Rightarrow> string \<Rightarrow> RequestingPartyTokenOptions \<Rightarrow>
     ('c, 'm, 'x, 'a, 'r, 'f, (int \<times> go_value \<times> error option) outcome) op" where
  "GetRequestingPartyToken E ctx token realm options w =
     (let errMessage = ''could not get requesting party token'';
          ((resp, err), w) = getRequestingParty E ctx token realm options TJWT w
      in case checkForError E resp err errMessage of
           Some err' \<Rightarrow> (return_with resp (\<lambda>r. (StatusCode r, GoNil, Some err')), w)
         | None \<Rightarrow> (return_with resp (\<lambda>r. (StatusCode r, Decoded TJWT r, None)), w))"

definition EvaluatePermission ::
  "('c, 'm, 'x, 'a, 'r, 'f, 'p) env \<Rightarrow> 'x \<Rightarrow> string \<Rightarrow> string \<Rightarrow> string \<Rightarrow> string \<Rightarrow> string list \<Rightarrow>
     ('c, 'm, 'x, 'a, 'r, 'f, (int \<times> go_value \<times> error option) outcome) op" where
  "EvaluatePermission E ctx userToken realm audience response_mode permissions w =
     (let (permission_token_grant, w) =
            addressOf (StringCell ''urn:ietf:params:oauth:grant-type:uma-ticket'') w;
          (pAudience, w) = addressOf (StringCell audience) w;
          (pResponseMode, w) = addressOf (StringCell response_mode) w;
          (pPermissions, w) = addressOf (StringsCell permissions) w;
          options = \<lparr>GrantType = permission_token_grant, Audience = pAudience,
                      ResponseMode = pResponseMode, Permissions = pPermissions\<rparr>;
          (called, w) = GetRequestingPartyToken E ctx userToken realm options w
      in case called of
           Panic \<Rightarrow> (Panic, w)
         | Return (statusCode, jwt, err) \<Rightarrow>
             (case err of
                Some err' \<Rightarrow> (Return (statusCode, GoNil, Some err'), w)
              | None \<Rightarrow> (Return (statusCode, jwt, None), w)))"

section \<open>Users\<close>

definition CreateUser ::
  "('c, 'm, 'x, 'a, 'r, 'f, 'p) env \<Rightarrow> 'x \<Rightarrow> string \<Rightarrow> string \<Rightarrow> 'a User_scheme \<Rightarrow> ('c, 'm, 'x, 'a, 'r, 'f, (int \<times> string \<times> error option) outcome) op" where
  "CreateUser E ctx token realm user w =
     (let errMessage = ''could not create user'';
          ((resp, err), w) =
            Post E (getAdminRealmURL E (client w) realm [''users''])
              (SetBody (UserBody user) (GetRequestWithBearerAuth E (client w) ctx token)) w
      in case checkForError E resp err errMessage of
           Some err' \<Rightarrow> (return_with resp (\<lambda>r. (StatusCode r, '''', Some err')), w)
         | None \<Rightarrow> (return_with resp (\<lambda>r. (StatusCode r, getID E r, None)), w))"

definition DeleteUser ::
  "('c, 'm, 'x, 'a, 'r, 'f, 'p) env \<Rightarrow> 'x \<Rightarrow> string \<Rightarrow> string \<Rightarrow> string \<Rightarrow> ('c, 'm, 'x, 'a, 'r, 'f, (int \<times> error option) outcome) op" where
  "DeleteUser E ctx token realm userID w =
     (let errMessage = ''could not delete user'';
          ((resp, err), w) =
            Delete E (getAdminRealmURL E (client w) realm [''users'', userID])
              (GetRequestWithBearerAuth E (client w) ctx token) w
      in (return_with resp (\<lambda>r. (StatusCode r, checkForError E resp err errMessage)), w))"

definition GetUserByID ::
  "('c, 'm, 'x, 'a, 'r, 'f, 'p) env \<Rightarrow> 'x \<Rightarrow> string \<Rightarrow> string \<Rightarrow> string \<Rightarrow> ('c, 'm, 'x, 'a, 'r, 'f, (int \<times> go_value \<times> error option) outcome) op" where
  "GetUserByID E ctx accessToken realm userID w =
     (let errMessage = ''could not get user by id''
      in if userID = ''''
         then (Return (StatusBadRequest, GoNil,
                Some (Wrap (New ''userID shall not be empty'') errMessage)), w)
         else
           (let ((resp, err), w) =
                  Get E (getAdminRealmURL E (client w) realm [''users'', userID])
                    (SetResult TUser (GetRequestWithBearerAuth E (client w) ctx accessToken)) w
            in case checkForError E resp err errMessage of
                 Some err' \<Rightarrow> (return_with resp (\<lambda>r. (StatusCode r, GoNil, Some err')), w)
               | None \<Rightarrow> (return_with resp (\<lambda>r. (StatusCode r, Decoded TUser r, None)), w)))"

definition GetUserCount ::
  "('c, 'm, 'x, 'a, 'r, 'f, 'p) env \<Rightarrow> 'x \<Rightarrow> string \<Rightarrow> string \<Rightarrow> 'p \<Rightarrow> ('c, 'm, 'x, 'a, 'r, 'f, (int \<times> go_value \<times> error option) outcome) op" where
  "GetUserCount E ctx token realm params w =
     (let errMessage = ''could not get user count''
      in case GetQueryParams E params of
           Inl err \<Rightarrow> (Return (StatusBadRequest, GoInt 0, Some (Wrap err errMessage)), w)
         | Inr queryParams \<Rightarrow>
             (let ((resp, err), w) =
                    Get E (getAdminRealmURL E (client w) realm [''users'', ''count''])
                      (SetQueryParams queryParams
                        (SetResult TInt (GetRequestWithBearerAuth E (client w) ctx token))) w
              in case checkForError E resp err errMessage of
                   Some err' \<Rightarrow> (return_with resp (\<lambda>r. (StatusCode r, GoInt (- 1), Some (Wrap err' errMessage))), w)
                 | None \<Rightarrow> (return_with resp (\<lambda>r. (StatusCode r, Decoded TInt r, None)), w)))"

definition GetUserGroups ::
  "('c, 'm, 'x, 'a, 'r, 'f, 'p) env \<Rightarrow> 'x \<Rightarrow> string \<Rightarrow> string \<Rightarrow> string \<Rightarrow> 'p \<Rightarrow> ('c, 'm, 'x, 'a, 'r, 'f, (int \<times> go_value \<times> error option) outcome) op" where
  "GetUserGroups E ctx token realm userID params w =
     (let errMessage = ''could not get user groups''
      in case GetQueryParams E params of
           Inl err \<Rightarrow> (Return (StatusBadRequest, GoNil, Some (Wrap err errMessage)), w)
         | Inr queryParams \<Rightarrow>
             (let ((resp, err), w) =
                    Get E (getAdminRealmURL E (client w) realm [''users'', userID, ''groups''])
                      (SetQueryParams queryParams
                        (SetResult TGroups (GetRequestWithBearerAuth E (client w) ctx token))) w
              in case checkForError E resp err errMessage of
                   Some err' \<Rightarrow> (return_with resp (\<lambda>r. (StatusCode r, GoNil, Some err')), w)
                 | None \<Rightarrow> (return_with resp (\<lambda>r. (StatusCode r, Decoded TGroups r, None)), w)))"

definition GetUsers ::
  "('c, 'm, 'x, 'a, 'r, 'f, 'p) env \<Rightarrow> 'x \<Rightarrow> string \<Rightarrow> string \<Rightarrow> 'p \<Rightarrow> ('c, 'm, 'x, 'a, 'r, 'f, (int \<times> go_value \<times> error option) outcome) op" where
  "GetUsers E ctx token realm params w =
     (let errMessage = ''could not get users''
      in case GetQueryParams E params of
           Inl err \<Rightarrow> (Return (StatusBadRequest, GoNil, Some (Wrap err errMessage)), w)
         | Inr queryParams \<Rightarrow>
             (let ((resp, err), w) =
                    Get E (getAdminRealmURL E (client w) realm [''users''])
                      (SetQueryParams queryParams
                        (SetResult TUsers (GetRequestWithBearerAuth E (client w) ctx token))) w
              in case checkForError E resp err errMessage of
                   Some err' \<Rightarrow> (return_with resp (\<lambda>r. (StatusCode r, GoNil, Some err')), w)
                 | None \<Rightarrow> (return_with resp (\<lambda>r. (StatusCode r, Decoded TUsers r, None)), w)))"

definition GetUsersByRoleName ::
  "('c, 'm, 'x, 'a, 'r, 'f, 'p) env \<Rightarrow> 'x \<Rightarrow> string \<Rightarrow> string \<Rightarrow> string \<Rightarrow> 'p \<Rightarrow> ('c, 'm, 'x, 'a, 'r, 'f, (int \<times> go_value \<times> error option) outcome) op" where
  "GetUsersByRoleName E ctx token realm roleName params w =
     (let errMessage = ''could not get users by role name''
      in case GetQueryParams E params of
           Inl err \<Rightarrow> (Return (StatusBadRequest, GoNil, Some (Wrap err errMessage)), w)
         | Inr queryParams \<Rightarrow>
             (let ((resp, err), w) =
                    Get E (getAdminRealmURL E (client w) realm [''roles'', roleName, ''users''])
                      (SetQueryParams queryParams
                        (SetResult TUsers (GetRequestWithBearerAuth E (client w) ctx token))) w
              in case checkForError E resp err errMessage of
                   Some err' \<Rightarrow> (return_with resp (\<lambda>r. (StatusCode r, GoNil, Some err')), w)
                 | None \<Rightarrow> (return_with resp (\<lambda>r. (StatusCode r, Decoded TUsers r, None)), w)))"

definition GetUsersByClientRoleName ::
  "('c, 'm, 'x, 'a, 'r, 'f, 'p) env \<Rightarrow> 'x \<Rightarrow> string \<Rightarrow> string \<Rightarrow> string \<Rightarrow> string \<Rightarrow> 'p \<Rightarrow> ('c, 'm, 'x, 'a, 'r, 'f, (int \<times> go_value \<times> error option) outcome) op" where
  "GetUsersByClientRoleName E ctx token realm idOfClient roleName params w =
     (let errMessage = ''could not get users by client role name''
      in case GetQueryParams E params of
           Inl err \<Rightarrow> (Return (StatusBadRequest, GoNil, Some err), w)
         | Inr queryParams \<Rightarrow>
             (let ((resp, err), w) =
                    Get E (getAdminRealmURL E (client w) realm [''clients'', idOfClient, ''roles'', roleName, ''users''])
                      (SetQueryParams queryParams
                        (SetResult TUsers (GetRequestWithBearerAuth E (client w) ctx token))) w
              in case checkForError E resp err errMessage of
                   Some err' \<Rightarrow> (return_with resp (\<lambda>r. (StatusCode r, GoNil, Some err')), w)
                 | None \<Rightarrow> (return_with resp (\<lambda>r. (StatusCode r, Decoded TUsers r, None)), w)))"

definition SetPassword ::
  "('c, 'm, 'x, 'a, 'r, 'f, 'p) env \<Rightarrow> 'x \<Rightarrow> string \<Rightarrow> string \<Rightarrow> string \<Rightarrow> string \<Rightarrow> bool \<Rightarrow> ('c, 'm, 'x, 'a, 'r, 'f, (int \<times> error option) outcome) op" where
  "SetPassword E ctx token userID realm password temporary w =
     (let errMessage = ''could not set password'';
          (pPassword, w) = addressOf (StringCell password) w;
          (pTemporary, w) = addressOf (BoolCell temporary) w;
          (pType, w) = StringP ''password'' w;
          requestBody = \<lparr>Password = pPassword, Temporary = pTemporary, Type' = pType\<rparr>;
          ((resp, err), w) =
            Put E (getAdminRealmURL E (client w) realm [''users'', userID, ''reset-password''])
              (SetBody (SetPasswordBody requestBody) (GetRequestWithBearerAuth E (client w) ctx token)) w
      in (return_with resp (\<lambda>r. (StatusCode r, checkForError E resp err errMessage)), w))"

definition UpdateUser ::
  "('c, 'm, 'x, 'a, 'r, 'f, 'p) env \<Rightarrow> 'x \<Rightarrow> string \<Rightarrow> string \<Rightarrow> 'a User_scheme \<Rightarrow> ('c, 'm, 'x, 'a, 'r, 'f, (int \<times> error option) outcome) op" where
  "UpdateUser E ctx token realm user w =
     (let errMessage = ''could not update user'';
          ((resp, err), w) =
            Put E (getAdminRealmURL E (client w) realm [''users'', PString (heap w) (ID user)])
              (SetBody (UserBody user) (GetRequestWithBearerAuth E (client w) ctx token)) w
      in (return_with resp (\<lambda>r. (StatusCode r, checkForError E resp err errMessage)), w))"

definition AddUserToGroup ::
  "('c, 'm, 'x, 'a, 'r, 'f, 'p) env \<Rightarrow> 'x \<Rightarrow> string \<Rightarrow> string \<Rightarrow> string \<Rightarrow> string \<Rightarrow> ('c, 'm, 'x, 'a, 'r, 'f, (int \<times> error option) outcome) op" where
  "AddUserToGroup E ctx token realm userID groupID w =
     (let errMessage = ''could not add user to group'';
          ((resp, err), w) =
            Put E (getAdminRealmURL E (client w) realm [''users'', userID, ''groups'', groupID])
              (GetRequestWithBearerAuth E (client w) ctx token) w
      in (return_with resp (\<lambda>r. (StatusCode r, checkForError E resp err errMessage)), w))"

definition DeleteUserFromGroup ::
  "('c, 'm, 'x, 'a, 'r, 'f, 'p) env \<Rightarrow> 'x \<Rightarrow> string \<Rightarrow> string \<Rightarrow> string \<Rightarrow> string \<Rightarrow> ('c, 'm, 'x, 'a, 'r, 'f, (int \<times> error option) outcome) op" where
  "DeleteUserFromGroup E ctx token realm userID groupID w =
     (let errMessage = ''could not delete user from group'';
          ((resp, err), w) =
            Delete E (getAdminRealmURL E (client w) realm [''users'', userID, ''groups'', groupID])
              (GetRequestWithBearerAuth E (client w) ctx token) w
      in (return_with resp (\<lambda>r. (StatusCode r, checkForError E resp err errMessage)), w))"

definition GetUserSessions ::
  "('c, 'm, 'x, 'a, 'r, 'f, 'p) env \<Rightarrow> 'x \<Rightarrow> string \<Rightarrow> string \<Rightarrow> string \<Rightarrow> ('c, 'm, 'x, 'a, 'r, 'f, (int \<times> go_value \<times> error option) outcome) op" where
  "GetUserSessions E ctx token realm userID w =
     (let errMessage = ''could not get user sessions'';
          ((resp, err), w) =
            Get E (getAdminRealmURL E (client w) realm [''users'', userID, ''sessions''])
              (SetResult TSessions (GetRequestWithBearerAuth E (client w) ctx token)) w
      in case checkForError E resp err errMessage of
           Some err' \<Rightarrow> (return_with resp (\<lambda>r. (StatusCode r, GoNil, Some err')), w)
         | None \<Rightarrow> (return_with resp (\<lambda>r. (StatusCode r, Decoded TSessions r, None)), w))"

definition GetUserOfflineSessionsForClient ::
  "('c, 'm, 'x, 'a, 'r, 'f, 'p) env \<Rightarrow> 'x \<Rightarrow> string \<Rightarrow> string \<Rightarrow> string \<Rightarrow> string \<Rightarrow> ('c, 'm, 'x, 'a, 'r, 'f, (int \<times> go_value \<times> error option) outcome) op" where
  "GetUserOfflineSessionsForClient E ctx token realm userID idOfClient w =
     (let errMessage = ''could not get user offline sessions for client'';
          ((resp, err), w) =
            Get E (getAdminRealmURL E (client w) realm [''users'', userID, ''offline-sessions'', idOfClient])
              (SetResult TSessions (GetRequestWithBearerAuth E (client w) ctx token)) w
      in case checkForError E resp err errMessage of
           Some err' \<Rightarrow> (return_with resp (\<lambda>r. (StatusCode r, GoNil, Some err')), w)
         | None \<Rightarrow> (return_with resp (\<lambda>r. (StatusCode r, Decoded TSessions r, None)), w))"

definition AddClientRolesToUser ::
  "('c, 'm, 'x, 'a, 'r, 'f, 'p) env \<Rightarrow> 'x \<Rightarrow> string \<Rightarrow> string \<Rightarrow> string \<Rightarrow> string \<Rightarrow> 'r list \<Rightarrow> ('c, 'm, 'x, 'a, 'r, 'f, (int \<times> error option) outcome) op" where
  "AddClientRolesToUser E ctx token realm idOfClient userID roles w =
     (let errMessage = ''could not add client role to user'';
          ((resp, err), w) =
            Post E (getAdminRealmURL E (client w) realm [''users'', userID, ''role-mappings'', ''clients'', idOfClient])
              (SetBody (RolesBody roles) (GetRequestWithBearerAuth E (client w) ctx token)) w
      in (return_with resp (\<lambda>r. (StatusCode r, checkForError E resp err errMessage)), w))"

definition AddClientRoleToUser ::
  "('c, 'm, 'x, 'a, 'r, 'f, 'p) env \<Rightarrow> 'x \<Rightarrow> string \<Rightarrow> string \<Rightarrow> string \<Rightarrow> string \<Rightarrow> 'r list \<Rightarrow> ('c, 'm, 'x, 'a, 'r, 'f, (int \<times> error option) outcome) op" where
  "AddClientRoleToUser E ctx token realm idOfClient userID roles w =
     AddClientRolesToUser E ctx token realm idOfClient userID roles w"

definition DeleteClientRolesFromUser ::
  "('c, 'm, 'x, 'a, 'r, 'f, 'p) env \<Rightarrow> 'x \<Rightarrow> string \<Rightarrow> string \<Rightarrow> string \<Rightarrow> string \<Rightarrow> 'r list \<Rightarrow> ('c, 'm, 'x, 'a, 'r, 'f, (int \<times> error option) outcome) op" where
  "DeleteClientRolesFromUser E ctx token realm idOfClient userID roles w =
     (let errMessage = ''could not delete client role from user'';
          ((resp, err), w) =
            Delete E (getAdminRealmURL E (client w) realm [''users'', userID, ''role-mappings'', ''clients'', idOfClient])
              (SetBody (RolesBody roles) (GetRequestWithBearerAuth E (client w) ctx token)) w
      in (return_with resp (\<lambda>r. (StatusCode r, checkForError E resp err errMessage)), w))"

definition DeleteClientRoleFromUser ::
  "('c, 'm, 'x, 'a, 'r, 'f, 'p) env \<Rightarrow> 'x \<Rightarrow> string \<Rightarrow> string \<Rightarrow> string \<Rightarrow> string \<Rightarrow> 'r list \<Rightarrow> ('c, 'm, 'x, 'a, 'r, 'f, (int \<times> error option) outcome) op" where
  "DeleteClientRoleFromUser E ctx token realm idOfClient userID roles w =
     DeleteClientRolesFromUser E ctx token realm idOfClient userID roles w"

definition GetUserFederatedIdentities ::
  "('c, 'm, 'x, 'a, 'r, 'f, 'p) env \<Rightarrow> 'x \<Rightarrow> string \<Rightarrow> string \<Rightarrow> string \<Rightarrow> ('c, 'm, 'x, 'a, 'r, 'f, (int \<times> go_value \<times> error option) outcome) op" where
  "GetUserFederatedIdentities E ctx token realm userID w =
     (let errMessage = ''could not get user federated identities'';
          ((resp, err), w) =
            Get E (getAdminRealmURL E (client w) realm [''users'', userID, ''federated-identity''])
              (SetResult TFederatedIdentities (GetRequestWithBearerAuth E (client w) ctx token)) w
      in case checkForError E resp err errMessage of
           Some err' \<Rightarrow> (return_with resp (\<lambda>r. (StatusCode r, GoNil, Some err')), w)
         | None \<Rightarrow> (return_with resp (\<lambda>r. (StatusCode r, Decoded TFederatedIdentities r, err)), w))"

definition CreateUserFederatedIdentity ::
  "('c, 'm, 'x, 'a, 'r, 'f, 'p) env \<Rightarrow> 'x \<Rightarrow> string \<Rightarrow> string \<Rightarrow> string \<Rightarrow> string \<Rightarrow> 'f \<Rightarrow> ('c, 'm, 'x, 'a, 'r, 'f, (int \<times> error option) outcome) op" where
  "CreateUserFederatedIdentity E ctx token realm userID providerID federatedIdentityRep w =
     (let errMessage = ''could not create user federeated identity'';
          ((resp, err), w) =
            Post E (getAdminRealmURL E (client w) realm [''users'', userID, ''federated-identity'', providerID])
              (SetBody (FederatedIdentityBody federatedIdentityRep) (GetRequestWithBearerAuth E (client w) ctx token)) w
      in (return_with resp (\<lambda>r. (StatusCode r, checkForError E resp err errMessage)), w))"

definition DeleteUserFederatedIdentity ::
  "('c, 'm, 'x, 'a, 'r, 'f, 'p) env \<Rightarrow> 'x \<Rightarrow> string \<Rightarrow> string \<Rightarrow> string \<Rightarrow> string \<Rightarrow> ('c, 'm, 'x, 'a, 'r, 'f, (int \<times> error option) outcome) op" where
  "DeleteUserFederatedIdentity E ctx token realm userID providerID w =
     (let errMessage = ''could not delete user federeated identity'';
          ((resp, err), w) =
            Delete E (getAdminRealmURL E (client w) realm [''users'', userID, ''federated-identity'', providerID])
              (GetRequestWithBearerAuth E (client w) ctx token) w
      in (return_with resp (\<lambda>r. (StatusCode r, checkForError E resp err errMessage)), w))"

section \<open>The public operations as one interface\<close>

text \<open>
  \<open>operation\<close> names the public operations of the sources. A call is an operation with a
  record of argument values, one field for every parameter name of the signatures
  (\<^verbatim>\<open>accessToken\<close> and \<^verbatim>\<open>userToken\<close> are \<open>arg_token\<close>); \<open>run\<close> hands each operation the
  arguments of its signature, in the signature's order, and gives the results, when the
  operation returns, as status, value and error: an operation of type \<^verbatim>\<open>(int, error)\<close>
  has the value \<open>NoValue\<close>, one of type \<^verbatim>\<open>(int, string, error)\<close> has its string as value.
\<close>

datatype operation =
    OpGetRequestingPartyPermissions | OpGetRequestingPartyPermissionDecision | OpCreateRealmRole
  | OpGetRealmRole | OpGetRealmRoleByID | OpGetRealmRoles | OpGetRealmRolesByUserID
  | OpGetRealmRolesByGroupID | OpUpdateRealmRole | OpUpdateRealmRoleByID | OpDeleteRealmRole
  | OpAddRealmRoleToUser | OpDeleteRealmRoleFromUser | OpAddRealmRoleToGroup | OpDeleteRealmRoleFromGroup
  | OpAddRealmRoleComposite | OpDeleteRealmRoleComposite | OpGetCompositeRealmRoles
  | OpGetCompositeRolesByRoleID | OpGetCompositeRealmRolesByRoleID | OpGetCompositeRealmRolesByUserID
  | OpGetCompositeRealmRolesByGroupID | OpGetAvailableRealmRolesByUserID | OpGetAvailableRealmRolesByGroupID
  | OpEvaluatePermission | OpCreateUser | OpDeleteUser | OpGetUserByID | OpGetUserCount
  | OpGetUserGroups | OpGetUsers | OpGetUsersByRoleName | OpGetUsersByClientRoleName
  | OpSetPassword | OpUpdateUser | OpAddUserToGroup | OpDeleteUserFromGroup | OpGetUserSessions
  | OpGetUserOfflineSessionsForClient | OpAddClientRolesToUser | OpAddClientRoleToUser
  | OpDeleteClientRolesFromUser | OpDeleteClientRoleFromUser | OpGetUserFederatedIdentities
  | OpCreateUserFederatedIdentity | OpDeleteUserFederatedIdentity

record ('x, 'a, 'r, 'f, 'p) args =
  arg_ctx :: 'x
  arg_token :: string
  arg_realm :: string
  arg_userID :: string
  arg_roleName :: string
  arg_roleID :: string
  arg_groupID :: string
  arg_idOfClient :: string
  arg_providerID :: string
  arg_password :: string
  arg_temporary :: bool
  arg_audience :: string
  arg_response_mode :: string
  arg_permissions :: "string list"
  arg_user :: "'a User_scheme"
  arg_role :: 'r
  arg_roles :: "'r list"
  arg_federatedIdentityRep :: 'f
  arg_params :: 'p
  arg_options :: RequestingPartyTokenOptions

definition plain :: "(int \<times> error option) outcome \<times> 'w \<Rightarrow> (int \<times> go_value \<times> error option) outcome \<times> 'w" where
  "plain r = (case r of (called, w) \<Rightarrow> (map_outcome (\<lambda>(st, e). (st, NoValue, e)) called, w))"

definition named :: "(int \<times> string \<times> error option) outcome \<times> 'w \<Rightarrow> (int \<times> go_value \<times> error option) outcome \<times> 'w" where
  "named r = (case r of (called, w) \<Rightarrow> (map_outcome (\<lambda>(st, s, e). (st, GoString s, e)) called, w))"

fun run :: "('c, 'm, 'x, 'a, 'r, 'f, 'p) env \<Rightarrow> operation \<Rightarrow> ('x, 'a, 'r, 'f, 'p) args \<Rightarrow>
    ('c, 'm, 'x, 'a, 'r, 'f) world \<Rightarrow> (int \<times> go_value \<times> error option) outcome \<times> ('c, 'm, 'x, 'a, 'r, 'f) world" where
  "run E OpGetRequestingPartyPermissions a w =
     GetRequestingPartyPermissions E (arg_ctx a) (arg_token a) (arg_realm a) (arg_options a) w"
| "run E OpGetRequestingPartyPermissionDecision a w =
     GetRequestingPartyPermissionDecision E (arg_ctx a) (arg_token a) (arg_realm a) (arg_options a) w"
| "run E OpCreateRealmRole a w =
     named (CreateRealmRole E (arg_ctx a) (arg_token a) (arg_realm a) (arg_role a) w)"
| "run E OpGetRealmRole a w =
     GetRealmRole E (arg_ctx a) (arg_token a) (arg_realm a) (arg_roleName a) w"
| "run E OpGetRealmRoleByID a w =
     GetRealmRoleByID E (arg_ctx a) (arg_token a) (arg_realm a) (arg_roleID a) w"
| "run E OpGetRealmRoles a w =
     GetRealmRoles E (arg_ctx a) (arg_token a) (arg_realm a) (arg_params a) w"
| "run E OpGetRealmRolesByUserID a w =
     GetRealmRolesByUserID E (arg_ctx a) (arg_token a) (arg_realm a) (arg_userID a) w"
| "run E OpGetRealmRolesByGroupID a w =
     GetRealmRolesByGroupID E (arg_ctx a) (arg_token a) (arg_realm a) (arg_groupID a) w"
| "run E OpUpdateRealmRole a w =
     plain (UpdateRealmRole E (arg_ctx a) (arg_token a) (arg_realm a) (arg_roleName a) (arg_role a) w)"
| "run E OpUpdateRealmRoleByID a w =
     plain (UpdateRealmRoleByID E (arg_ctx a) (arg_token a) (arg_realm a) (arg_roleID a) (arg_role a) w)"
| "run E OpDeleteRealmRole a w =
     plain (DeleteRealmRole E (arg_ctx a) (arg_token a) (arg_realm a) (arg_roleName a) w)"
| "run E OpAddRealmRoleToUser a w =
     plain (AddRealmRoleToUser E (arg_ctx a) (arg_token a) (arg_realm a) (arg_userID a) (arg_roles a) w)"
| "run E OpDeleteRealmRoleFromUser a w =
     plain (DeleteRealmRoleFromUser E (arg_ctx a) (arg_token a) (arg_realm a) (arg_userID a) (arg_roles a) w)"
| "run E OpAddRealmRoleToGroup a w =
     plain (AddRealmRoleToGroup E (arg_ctx a) (arg_token a) (arg_realm a) (arg_groupID a) (arg_roles a) w)"
| "run E OpDeleteRealmRoleFromGroup a w =
     plain (DeleteRealmRoleFromGroup E (arg_ctx a) (arg_token a) (arg_realm a) (arg_groupID a) (arg_roles a) w)"
| "run E OpAddRealmRoleComposite a w =
     plain (AddRealmRoleComposite E (arg_ctx a) (arg_token a) (arg_realm a) (arg_roleName a) (arg_roles a) w)"
| "run E OpDeleteRealmRoleComposite a w =
     plain (DeleteRealmRoleComposite E (arg_ctx a) (arg_token a) (arg_realm a) (arg_roleName a) (arg_roles a) w)"
| "run E OpGetCompositeRealmRoles a w =
     GetCompositeRealmRoles E (arg_ctx a) (arg_token a) (arg_realm a) (arg_roleName a) w"
| "run E OpGetCompositeRolesByRoleID a w =
     GetCompositeRolesByRoleID E (arg_ctx a) (arg_token a) (arg_realm a) (arg_roleID a) w"
| "run E OpGetCompositeRealmRolesByRoleID a w =
     GetCompositeRealmRolesByRoleID E (arg_ctx a) (arg_token a) (arg_realm a) (arg_roleID a) w"
| "run E OpGetCompositeRealmRolesByUserID a w =
     GetCompositeRealmRolesByUserID E (arg_ctx a) (arg_token a) (arg_realm a) (arg_userID a) w"
| "run E OpGetCompositeRealmRolesByGroupID a w =
     GetCompositeRealmRolesByGroupID E (arg_ctx a) (arg_token a) (arg_realm a) (arg_groupID a) w"
| "run E OpGetAvailableRealmRolesByUserID a w =
     GetAvailableRealmRolesByUserID E (arg_ctx a) (arg_token a) (arg_realm a) (arg_userID a) w"
| "run E OpGetAvailableRealmRolesByGroupID a w =
     GetAvailableRealmRolesByGroupID E (arg_ctx a) (arg_token a) (arg_realm a) (arg_groupID a) w"
| "run E OpEvaluatePermission a w =
     EvaluatePermission E (arg_ctx a) (arg_token a) (arg_realm a) (arg_audience a) (arg_response_mode a) (arg_permissions a) w"
| "run E OpCreateUser a w =
     named (CreateUser E (arg_ctx a) (arg_token a) (arg_realm a) (arg_user a) w)"
| "run E OpDeleteUser a w =
     plain (DeleteUser E (arg_ctx a) (arg_token a) (arg_realm a) (arg_userID a) w)"
| "run E OpGetUserByID a w =
     GetUserByID E (arg_ctx a) (arg_token a) (arg_realm a) (arg_userID a) w"
| "run E OpGetUserCount a w =
     GetUserCount E (arg_ctx a) (arg_token a) (arg_realm a) (arg_params a) w"
| "run E OpGetUserGroups a w =
     GetUserGroups E (arg_ctx a) (arg_token a) (arg_realm a) (arg_userID a) (arg_params a) w"
| "run E OpGetUsers a w =
     GetUsers E (arg_ctx a) (arg_token a) (arg_realm a) (arg_params a) w"
| "run E OpGetUsersByRoleName a w =
     GetUsersByRoleName E (arg_ctx a) (arg_token a) (arg_realm a) (arg_roleName a) (arg_params a) w"
| "run E OpGetUsersByClientRoleName a w =
     GetUsersByClientRoleName E (arg_ctx a) (arg_token a) (arg_realm a) (arg_idOfClient a) (arg_roleName a) (arg_params a) w"
| "run E OpSetPassword a w =
     plain (SetPassword E (arg_ctx a) (arg_token a) (arg_userID a) (arg_realm a) (arg_password a) (arg_temporary a) w)"
| "run E OpUpdateUser a w =
     plain (UpdateUser E (arg_ctx a) (arg_token a) (arg_realm a) (arg_user a) w)"
| "run E OpAddUserToGroup a w =
     plain (AddUserToGroup E (arg_ctx a) (arg_token a) (arg_realm a) (arg_userID a) (arg_groupID a) w)"
| "run E OpDeleteUserFromGroup a w =
     plain (DeleteUserFromGroup E (arg_ctx a) (arg_token a) (arg_realm a) (arg_userID a) (arg_groupID a) w)"
| "run E OpGetUserSessions a w =
     GetUserSessions E (arg_ctx a) (arg_token a) (arg_realm a) (arg_userID a) w"
| "run E OpGetUserOfflineSessionsForClient a w =
     GetUserOfflineSessionsForClient E (arg_ctx a) (arg_token a) (arg_realm a) (arg_userID a) (arg_idOfClient a) w"
| "run E OpAddClientRolesToUser a w =
     plain (AddClientRolesToUser E (arg_ctx a) (arg_token a) (arg_realm a) (arg_idOfClient a) (arg_userID a) (arg_roles a) w)"
| "run E OpAddClientRoleToUser a w =
     plain (AddClientRoleToUser E (arg_ctx a) (arg_token a) (arg_realm a) (arg_idOfClient a) (arg_userID a) (arg_roles a) w)"
| "run E OpDeleteClientRolesFromUser a w =
     plain (DeleteClientRolesFromUser E (arg_ctx a) (arg_token a) (arg_realm a) (arg_idOfClient a) (arg_userID a) (arg_roles a) w)"
| "run E OpDeleteClientRoleFromUser a w =
     plain (DeleteClientRoleFromUser E (arg_ctx a) (arg_token a) (arg_realm a) (arg_idOfClient a) (arg_userID a) (arg_roles a) w)"
| "run E OpGetUserFederatedIdentities a w =
     GetUserFederatedIdentities E (arg_ctx a) (arg_token a) (arg_realm a) (arg_userID a) w"
| "run E OpCreateUserFederatedIdentity a w =
     plain (CreateUserFederatedIdentity E (arg_ctx a) (arg_token a) (arg_realm a) (arg_userID a) (arg_providerID a) (arg_federatedIdentityRep a) w)"
| "run E OpDeleteUserFederatedIdentity a w =
     plain (DeleteUserFederatedIdentity E (arg_ctx a) (arg_token a) (arg_realm a) (arg_userID a) (arg_providerID a) w)"

text \<open>
  The description an operation gives to \<^verbatim>\<open>checkForError\<close> (its constant \<^verbatim>\<open>errMessage\<close>; for
  \<^verbatim>\<open>EvaluatePermission\<close> the one of \<open>GetRequestingPartyToken\<close>).
\<close>

fun description :: "operation \<Rightarrow> string" where
  "description OpGetRequestingPartyPermissions = ''could not get requesting party token''"
| "description OpGetRequestingPartyPermissionDecision = ''could not get requesting party token''"
| "description OpCreateRealmRole = ''could not create realm role''"
| "description OpGetRealmRole = ''could not get realm role''"
| "description OpGetRealmRoleByID = ''could not get realm role''"
| "description OpGetRealmRoles = ''could not get realm roles''"
| "description OpGetRealmRolesByUserID = ''could not get realm roles by user id''"
| "description OpGetRealmRolesByGroupID = ''could not get realm roles by group id''"
| "description OpUpdateRealmRole = ''could not update realm role''"
| "description OpUpdateRealmRoleByID = ''could not update realm role''"
| "description OpDeleteRealmRole = ''could not delete realm role''"
| "description OpAddRealmRoleToUser = ''could not add realm role to user''"
| "description OpDeleteRealmRoleFromUser = ''could not delete realm role from user''"
| "description OpAddRealmRoleToGroup = ''could not add realm role to group''"
| "description OpDeleteRealmRoleFromGroup = ''could not delete realm role from group''"
| "description OpAddRealmRoleComposite = ''could not add realm role composite''"
| "description OpDeleteRealmRoleComposite = ''could not delete realm role composite''"
| "description OpGetCompositeRealmRoles = ''could not get composite realm roles by role''"
| "description OpGetCompositeRolesByRoleID = ''could not get composite client roles by role id''"
| "description OpGetCompositeRealmRolesByRoleID = ''could not get composite client roles by role id''"
| "description OpGetCompositeRealmRolesByUserID = ''could not get composite client roles by user id''"
| "description OpGetCompositeRealmRolesByGroupID = ''could not get composite client roles by user id''"
| "description OpGetAvailableRealmRolesByUserID = ''could not get available client roles by user id''"
| "description OpGetAvailableRealmRolesByGroupID = ''could not get available client roles by user id''"
| "description OpEvaluatePermission = ''could not get requesting party token''"
| "description OpCreateUser = ''could not create user''"
| "description OpDeleteUser = ''could not delete user''"
| "description OpGetUserByID = ''could not get user by id''"
| "description OpGetUserCount = ''could not get user count''"
| "description OpGetUserGroups = ''could not get user groups''"
| "description OpGetUsers = ''could not get users''"
| "description OpGetUsersByRoleName = ''could not get users by role name''"
| "description OpGetUsersByClientRoleName = ''could not get users by client role name''"
| "description OpSetPassword = ''could not set password''"
| "description OpUpdateUser = ''could not update user''"
| "description OpAddUserToGroup = ''could not add user to group''"
| "description OpDeleteUserFromGroup = ''could not delete user from group''"
| "description OpGetUserSessions = ''could not get user sessions''"
| "description OpGetUserOfflineSessionsForClient = ''could not get user offline sessions for client''"
| "description OpAddClientRolesToUser = ''could not add client role to user''"
| "description OpAddClientRoleToUser = ''could not add client role to user''"
| "description OpDeleteClientRolesFromUser = ''could not delete client role from user''"
| "description OpDeleteClientRoleFromUser = ''could not delete client role from user''"
| "description OpGetUserFederatedIdentities = ''could not get user federated identities''"
| "description OpCreateUserFederatedIdentity = ''could not create user federeated identity''"
| "description OpDeleteUserFederatedIdentity = ''could not delete user federeated identity''"


text \<open>
  A call is rejected before any request is made when \<^verbatim>\<open>GetUserByID\<close> gets the empty user
  id, or when \<^verbatim>\<open>GetQueryParams\<close> fails on the params structure. \<open>local_status\<close> is the
  status the operation then returns.
\<close>

fun empty_userID :: "operation \<Rightarrow> ('x, 'a, 'r, 'f, 'p) args \<Rightarrow> bool" where
  "empty_userID OpGetUserByID a = (arg_userID a = '''')"
| "empty_userID _ a = False"

fun takes_params :: "operation \<Rightarrow> bool" where
  "takes_params OpGetRealmRoles = True"
| "takes_params OpGetUserCount = True"
| "takes_params OpGetUserGroups = True"
| "takes_params OpGetUsers = True"
| "takes_params OpGetUsersByRoleName = True"
| "takes_params OpGetUsersByClientRoleName = True"
| "takes_params _ = False"

definition params_failed :: "('c, 'm, 'x, 'a, 'r, 'f, 'p) env \<Rightarrow> operation \<Rightarrow> ('x, 'a, 'r, 'f, 'p) args \<Rightarrow> bool" where
  "params_failed E n a = (takes_params n \<and> isl (GetQueryParams E (arg_params a)))"

definition rejected :: "('c, 'm, 'x, 'a, 'r, 'f, 'p) env \<Rightarrow> operation \<Rightarrow> ('x, 'a, 'r, 'f, 'p) args \<Rightarrow> bool" where
  "rejected E n a = (empty_userID n a \<or> params_failed E n a)"

fun local_status :: "operation \<Rightarrow> int" where
  "local_status OpGetRealmRoles = StatusInternalServerError"
| "local_status _ = StatusBadRequest"

text \<open>
  The exchanges a call added to the world, and when an exchange counts as failed: the
  HTTP client returned an error (the transport failed, or it could not decode the
  response), or there is no response with a status from 200 to 299.
\<close>

definition new_exchanges :: "('c, 'm, 'x, 'a, 'r, 'f) world \<Rightarrow> ('c, 'm, 'x, 'a, 'r, 'f) world \<Rightarrow> ('x, 'a, 'r, 'f) exchange list" where
  "new_exchanges w w' = drop (length (exchanges w)) (exchanges w')"

definition is2xx :: "int \<Rightarrow> bool" where
  "is2xx c = (200 \<le> c \<and> c < 300)"

definition exchange_failed :: "('x, 'a, 'r, 'f) exchange \<Rightarrow> bool" where
  "exchange_failed x =
     (failure x \<noteq> None
      \<or> (case received x of None \<Rightarrow> True | Some r \<Rightarrow> \<not> is2xx (StatusCode r)))"

text \<open>
  Modelled from the spec: \<^verbatim>\<open>checkForError\<close>, the "one central HTTP error-checking routine"
  (\<^verbatim>\<open>client.go\<close>), is not among the sources. The spec: "did the HTTP call return a
  non-2xx status or a transport error, if so wrap and return it"; the failure "is wrapped
  with a static per-call description", with "pass-through of the server's status code
  and body". A call that gave neither an error nor a response did not return a 2xx
  status either, and is wrapped as well.
\<close>

definition checkForError_spec :: "response option \<Rightarrow> error option \<Rightarrow> string \<Rightarrow> error option" where
  "checkForError_spec resp err errMessage =
     (case err of
        Some e \<Rightarrow> Some (Wrap e errMessage)
      | None \<Rightarrow>
          (case resp of
             None \<Rightarrow> Some (Wrap (Foreign ''no response'') errMessage)
           | Some r \<Rightarrow>
               if is2xx (StatusCode r) then None
               else Some (Wrap (Status (StatusCode r) (RespBody r)) errMessage)))"

text \<open>
  The two parts of what an operation gives, and the pointers a caller can hold in a
  store: nil or the address of a cell of the store.
\<close>

definition outcome_of :: "'v \<times> 'w \<Rightarrow> 'v" where
  "outcome_of r = fst r"

definition world_after :: "'v \<times> 'w \<Rightarrow> 'w" where
  "world_after r = snd r"

definition valid_ptr :: "heap \<Rightarrow> ptr \<Rightarrow> bool" where
  "valid_ptr h p = (case p of None \<Rightarrow> True | Some a \<Rightarrow> a < length h)"

text \<open>
  The endpoint of every operation: the verb, and the URL as the URL helper builds it from
  the realm and the path segments. Only \<^verbatim>\<open>UpdateUser\<close> reads the store for it, for the id of
  the user.
\<close>

fun verb_of :: "operation \<Rightarrow> string" where
  "verb_of OpGetRequestingPartyPermissions = ''POST''"
| "verb_of OpGetRequestingPartyPermissionDecision = ''POST''"
| "verb_of OpCreateRealmRole = ''POST''"
| "verb_of OpGetRealmRole = ''GET''"
| "verb_of OpGetRealmRoleByID = ''GET''"
| "verb_of OpGetRealmRoles = ''GET''"
| "verb_of OpGetRealmRolesByUserID = ''GET''"
| "verb_of OpGetRealmRolesByGroupID = ''GET''"
| "verb_of OpUpdateRealmRole = ''PUT''"
| "verb_of OpUpdateRealmRoleByID = ''PUT''"
| "verb_of OpDeleteRealmRole = ''DELETE''"
| "verb_of OpAddRealmRoleToUser = ''POST''"
| "verb_of OpDeleteRealmRoleFromUser = ''DELETE''"
| "verb_of OpAddRealmRoleToGroup = ''POST''"
| "verb_of OpDeleteRealmRoleFromGroup = ''DELETE''"
| "verb_of OpAddRealmRoleComposite = ''POST''"
| "verb_of OpDeleteRealmRoleComposite = ''DELETE''"
| "verb_of OpGetCompositeRealmRoles = ''GET''"
| "verb_of OpGetCompositeRolesByRoleID = ''GET''"
| "verb_of OpGetCompositeRealmRolesByRoleID = ''GET''"
| "verb_of OpGetCompositeRealmRolesByUserID = ''GET''"
| "verb_of OpGetCompositeRealmRolesByGroupID = ''GET''"
| "verb_of OpGetAvailableRealmRolesByUserID = ''GET''"
| "verb_of OpGetAvailableRealmRolesByGroupID = ''GET''"
| "verb_of OpEvaluatePermission = ''POST''"
| "verb_of OpCreateUser = ''POST''"
| "verb_of OpDeleteUser = ''DELETE''"
| "verb_of OpGetUserByID = ''GET''"
| "verb_of OpGetUserCount = ''GET''"
| "verb_of OpGetUserGroups = ''GET''"
| "verb_of OpGetUsers = ''GET''"
| "verb_of OpGetUsersByRoleName = ''GET''"
| "verb_of OpGetUsersByClientRoleName = ''GET''"
| "verb_of OpSetPassword = ''PUT''"
| "verb_of OpUpdateUser = ''PUT''"
| "verb_of OpAddUserToGroup = ''PUT''"
| "verb_of OpDeleteUserFromGroup = ''DELETE''"
| "verb_of OpGetUserSessions = ''GET''"
| "verb_of OpGetUserOfflineSessionsForClient = ''GET''"
| "verb_of OpAddClientRolesToUser = ''POST''"
| "verb_of OpAddClientRoleToUser = ''POST''"
| "verb_of OpDeleteClientRolesFromUser = ''DELETE''"
| "verb_of OpDeleteClientRoleFromUser = ''DELETE''"
| "verb_of OpGetUserFederatedIdentities = ''GET''"
| "verb_of OpCreateUserFederatedIdentity = ''POST''"
| "verb_of OpDeleteUserFederatedIdentity = ''DELETE''"

fun url_of :: "('c, 'm, 'x, 'a, 'r, 'f, 'p) env \<Rightarrow> ('c, 'm) GoKeycloak_scheme \<Rightarrow> heap \<Rightarrow> operation \<Rightarrow>
    ('x, 'a, 'r, 'f, 'p) args \<Rightarrow> string" where
  "url_of E g h OpGetRequestingPartyPermissions a =
     getRealmURL E g (arg_realm a) [openIDConnect (Config g), ''token'']"
| "url_of E g h OpGetRequestingPartyPermissionDecision a =
     getRealmURL E g (arg_realm a) [openIDConnect (Config g), ''token'']"
| "url_of E g h OpCreateRealmRole a =
     getAdminRealmURL E g (arg_realm a) [''roles'']"
| "url_of E g h OpGetRealmRole a =
     getAdminRealmURL E g (arg_realm a) [''roles'', arg_roleName a]"
| "url_of E g h OpGetRealmRoleByID a =
     getAdminRealmURL E g (arg_realm a) [''roles-by-id'', arg_roleID a]"
| "url_of E g h OpGetRealmRoles a =
     getAdminRealmURL E g (arg_realm a) [''roles'']"
| "url_of E g h OpGetRealmRolesByUserID a =
     getAdminRealmURL E g (arg_realm a) [''users'', arg_userID a, ''role-mappings'', ''realm'']"
| "url_of E g h OpGetRealmRolesByGroupID a =
     getAdminRealmURL E g (arg_realm a) [''groups'', arg_groupID a, ''role-mappings'', ''realm'']"
| "url_of E g h OpUpdateRealmRole a =
     getAdminRealmURL E g (arg_realm a) [''roles'', arg_roleName a]"
| "url_of E g h OpUpdateRealmRoleByID a =
     getAdminRealmURL E g (arg_realm a) [''roles-by-id'', arg_roleID a]"
| "url_of E g h OpDeleteRealmRole a =
     getAdminRealmURL E g (arg_realm a) [''roles'', arg_roleName a]"
| "url_of E g h OpAddRealmRoleToUser a =
     getAdminRealmURL E g (arg_realm a) [''users'', arg_userID a, ''role-mappings'', ''realm'']"
| "url_of E g h OpDeleteRealmRoleFromUser a =
     getAdminRealmURL E g (arg_realm a) [''users'', arg_userID a, ''role-mappings'', ''realm'']"
| "url_of E g h OpAddRealmRoleToGroup a =
     getAdminRealmURL E g (arg_realm a) [''groups'', arg_groupID a, ''role-mappings'', ''realm'']"
| "url_of E g h OpDeleteRealmRoleFromGroup a =
     getAdminRealmURL E g (arg_realm a) [''groups'', arg_groupID a, ''role-mappings'', ''realm'']"
| "url_of E g h OpAddRealmRoleComposite a =
     getAdminRealmURL E g (arg_realm a) [''roles'', arg_roleName a, ''composites'']"
| "url_of E g h OpDeleteRealmRoleComposite a =
     getAdminRealmURL E g (arg_realm a) [''roles'', arg_roleName a, ''composites'']"
| "url_of E g h OpGetCompositeRealmRoles a =
     getAdminRealmURL E g (arg_realm a) [''roles'', arg_roleName a, ''composites'']"
| "url_of E g h OpGetCompositeRolesByRoleID a =
     getAdminRealmURL E g (arg_realm a) [''roles-by-id'', arg_roleID a, ''composites'']"
| "url_of E g h OpGetCompositeRealmRolesByRoleID a =
     getAdminRealmURL E g (arg_realm a) [''roles-by-id'', arg_roleID a, ''composites'', ''realm'']"
| "url_of E g h OpGetCompositeRealmRolesByUserID a =
     getAdminRealmURL E g (arg_realm a) [''users'', arg_userID a, ''role-mappings'', ''realm'', ''composite'']"
| "url_of E g h OpGetCompositeRealmRolesByGroupID a =
     getAdminRealmURL E g (arg_realm a) [''groups'', arg_groupID a, ''role-mappings'', ''realm'', ''composite'']"
| "url_of E g h OpGetAvailableRealmRolesByUserID a =
     getAdminRealmURL E g (arg_realm a) [''users'', arg_userID a, ''role-mappings'', ''realm'', ''available'']"
| "url_of E g h OpGetAvailableRealmRolesByGroupID a =
     getAdminRealmURL E g (arg_realm a) [''groups'', arg_groupID a, ''role-mappings'', ''realm'', ''available'']"
| "url_of E g h OpEvaluatePermission a =
     getRealmURL E g (arg_realm a) [openIDConnect (Config g), ''token'']"
| "url_of E g h OpCreateUser a =
     getAdminRealmURL E g (arg_realm a) [''users'']"
| "url_of E g h OpDeleteUser a =
     getAdminRealmURL E g (arg_realm a) [''users'', arg_userID a]"
| "url_of E g h OpGetUserByID a =
     getAdminRealmURL E g (arg_realm a) [''users'', arg_userID a]"
| "url_of E g h OpGetUserCount a =
     getAdminRealmURL E g (arg_realm a) [''users'', ''count'']"
| "url_of E g h OpGetUserGroups a =
     getAdminRealmURL E g (arg_realm a) [''users'', arg_userID a, ''groups'']"
| "url_of E g h OpGetUsers a =
     getAdminRealmURL E g (arg_realm a) [''users'']"
| "url_of E g h OpGetUsersByRoleName a =
     getAdminRealmURL E g (arg_realm a) [''roles'', arg_roleName a, ''users'']"
| "url_of E g h OpGetUsersByClientRoleName a =
     getAdminRealmURL E g (arg_realm a) [''clients'', arg_idOfClient a, ''roles'', arg_roleName a, ''users'']"
| "url_of E g h OpSetPassword a =
     getAdminRealmURL E g (arg_realm a) [''users'', arg_userID a, ''reset-password'']"
| "url_of E g h OpUpdateUser a =
     getAdminRealmURL E g (arg_realm a) [''users'', PString h (ID (arg_user a))]"
| "url_of E g h OpAddUserToGroup a =
     getAdminRealmURL E g (arg_realm a) [''users'', arg_userID a, ''groups'', arg_groupID a]"
| "url_of E g h OpDeleteUserFromGroup a =
     getAdminRealmURL E g (arg_realm a) [''users'', arg_userID a, ''groups'', arg_groupID a]"
| "url_of E g h OpGetUserSessions a =
     getAdminRealmURL E g (arg_realm a) [''users'', arg_userID a, ''sessions'']"
| "url_of E g h OpGetUserOfflineSessionsForClient a =
     getAdminRealmURL E g (arg_realm a) [''users'', arg_userID a, ''offline-sessions'', arg_idOfClient a]"
| "url_of E g h OpAddClientRolesToUser a =
     getAdminRealmURL E g (arg_realm a) [''users'', arg_userID a, ''role-mappings'', ''clients'', arg_idOfClient a]"
| "url_of E g h OpAddClientRoleToUser a =
     getAdminRealmURL E g (arg_realm a) [''users'', arg_userID a, ''role-mappings'', ''clients'', arg_idOfClient a]"
| "url_of E g h OpDeleteClientRolesFromUser a =
     getAdminRealmURL E g (arg_realm a) [''users'', arg_userID a, ''role-mappings'', ''clients'', arg_idOfClient a]"
| "url_of E g h OpDeleteClientRoleFromUser a =
     getAdminRealmURL E g (arg_realm a) [''users'', arg_userID a, ''role-mappings'', ''clients'', arg_idOfClient a]"
| "url_of E g h OpGetUserFederatedIdentities a =
     getAdminRealmURL E g (arg_realm a) [''users'', arg_userID a, ''federated-identity'']"
| "url_of E g h OpCreateUserFederatedIdentity a =
     getAdminRealmURL E g (arg_realm a) [''users'', arg_userID a, ''federated-identity'', arg_providerID a]"
| "url_of E g h OpDeleteUserFederatedIdentity a =
     getAdminRealmURL E g (arg_realm a) [''users'', arg_userID a, ''federated-identity'', arg_providerID a]"

section \<open>A concrete environment\<close>

text \<open>
  A small server and concrete helpers, to evaluate the operations on concrete inputs: a
  request without a token fails in transport, a \<^verbatim>\<open>DELETE\<close> is answered with 404, anything
  else with 200; a params structure is a flag that says whether it serialises; the form
  data of the options has the grant type and the response mode, when present.
  In \<open>demo_refused\<close> a hook refuses every request before it is sent, so that the client
  library gives an error and no response object.
\<close>

definition demo_net ::
  "(unit, unit, unit, unit, unit, unit) world \<Rightarrow> (unit, unit, unit, unit) request \<Rightarrow>
     response option \<times> error option" where
  "demo_net w r =
     (if AuthToken r = ''''
      then (Some \<lparr>StatusCode = 0, RespBody = '''', Header = []\<rparr>, Some (Foreign ''connection refused''))
      else if Method r = ''DELETE''
      then (Some \<lparr>StatusCode = 404, RespBody = ''not found'', Header = []\<rparr>, None)
      else (Some \<lparr>StatusCode = 200, RespBody = ''{}'', Header = [(''Location'', ''users/42'')]\<rparr>, None))"

definition demo_FormData :: "heap \<Rightarrow> RequestingPartyTokenOptions \<Rightarrow> (string \<times> string) list" where
  "demo_FormData h opts =
     (case GrantType opts of None \<Rightarrow> [] | Some a \<Rightarrow> [(''grant_type'', PString h (Some a))]) @
     (case ResponseMode opts of None \<Rightarrow> [] | Some a \<Rightarrow> [(''response_mode'', PString h (Some a))])"

definition demo :: "(unit, unit, unit, unit, unit, unit, bool) env" where
  "demo =
     \<lparr>net = demo_net,
      GetRequestWithBearerAuth = (\<lambda>g ctx token.
        \<lparr>Context = ctx, AuthToken = token, Method = '''', URL = '''', Body = NoBody,
         QueryParam = [], Form = [], Result = None\<rparr>),
      getAdminRealmURL = (\<lambda>g realm path. concat (map (\<lambda>s. CHR ''/'' # s) (''admin'' # ''realms'' # realm # path))),
      getRealmURL = (\<lambda>g realm path. concat (map (\<lambda>s. CHR ''/'' # s) (''realms'' # realm # path))),
      getID = (\<lambda>resp. case map_of (Header resp) ''Location'' of None \<Rightarrow> '''' | Some l \<Rightarrow> l),
      GetQueryParams = (\<lambda>p. if p then Inr [(''max'', ''10'')] else Inl (Foreign ''unsupported value'')),
      FormData = demo_FormData,
      checkForError = checkForError_spec\<rparr>"

definition demo_refused :: "(unit, unit, unit, unit, unit, unit, bool) env" where
  "demo_refused = demo\<lparr>net := (\<lambda>w r. (None, Some (Foreign ''refused by a hook'')))\<rparr>"

definition world0 :: "(unit, unit, unit, unit, unit, unit) world" where
  "world0 = \<lparr>client = \<lparr>Config = \<lparr>openIDConnect = ''protocol/openid-connect''\<rparr>\<rparr>, heap = [], exchanges = []\<rparr>"

definition world1 :: "(unit, unit, unit, unit, unit, unit) world" where
  "world1 = world0\<lparr>heap := [StringCell ''decision'', StringsCell [''res#read'', ''res#write'']]\<rparr>"

definition args0 :: "(unit, unit, unit, unit, bool) args" where
  "args0 =
     \<lparr>arg_ctx = (), arg_token = ''secret'', arg_realm = ''master'', arg_userID = '''',
      arg_roleName = ''admin'', arg_roleID = ''7'', arg_groupID = ''3'', arg_idOfClient = ''9'',
      arg_providerID = ''github'', arg_password = ''pw'', arg_temporary = True,
      arg_audience = ''app'', arg_response_mode = ''decision'', arg_permissions = [''res#read''],
      arg_user = \<lparr>ID = None\<rparr>, arg_role = (), arg_roles = [()], arg_federatedIdentityRep = (),
      arg_params = False,
      arg_options = \<lparr>GrantType = None, Audience = None, ResponseMode = None, Permissions = None\<rparr>\<rparr>"

definition args1 :: "(unit, unit, unit, unit, bool) args" where
  "args1 = args0\<lparr>arg_userID := ''42'',
     arg_options := \<lparr>GrantType = None, Audience = None, ResponseMode = Some 0, Permissions = Some 1\<rparr>\<rparr>"

section \<open>Building blocks\<close>

lemmas op_defs = getRequestingParty_def GetRequestingPartyPermissions_def GetRequestingPartyPermissionDecision_def
  CreateRealmRole_def GetRealmRole_def GetRealmRoleByID_def GetRealmRoles_def GetRealmRolesByUserID_def
  GetRealmRolesByGroupID_def UpdateRealmRole_def UpdateRealmRoleByID_def DeleteRealmRole_def
  AddRealmRoleToUser_def DeleteRealmRoleFromUser_def AddRealmRoleToGroup_def DeleteRealmRoleFromGroup_def
  AddRealmRoleComposite_def DeleteRealmRoleComposite_def GetCompositeRealmRoles_def
  GetCompositeRolesByRoleID_def GetCompositeRealmRolesByRoleID_def GetCompositeRealmRolesByUserID_def
  GetCompositeRealmRolesByGroupID_def GetAvailableRealmRolesByUserID_def GetAvailableRealmRolesByGroupID_def
  GetRequestingPartyToken_def EvaluatePermission_def CreateUser_def DeleteUser_def
  GetUserByID_def GetUserCount_def GetUserGroups_def GetUsers_def GetUsersByRoleName_def
  GetUsersByClientRoleName_def SetPassword_def UpdateUser_def AddUserToGroup_def DeleteUserFromGroup_def
  GetUserSessions_def GetUserOfflineSessionsForClient_def AddClientRolesToUser_def
  AddClientRoleToUser_def DeleteClientRolesFromUser_def DeleteClientRoleFromUser_def
  GetUserFederatedIdentities_def CreateUserFederatedIdentity_def DeleteUserFederatedIdentity_def

lemma addressOf_eq: "addressOf c w = (Some (length (heap w)), w\<lparr>heap := heap w @ [c]\<rparr>)"
  by (simp add: addressOf_def alloc_def)

lemma StringP_eq: "StringP s w = (Some (length (heap w)), w\<lparr>heap := heap w @ [StringCell s]\<rparr>)"
  by (simp add: StringP_def addressOf_eq)

lemmas http_defs = Get_def Post_def Put_def Delete_def Execute_def SetBody_def SetResult_def
  SetQueryParams_def SetFormData_def SetFormDataFromValues_def StringP_eq addressOf_eq
  plain_def named_def return_with_def

lemmas const_defs = StatusBadRequest_def StatusInternalServerError_def MethodGet_def MethodPost_def
  MethodPut_def MethodDelete_def

lemmas outcome_defs = outcome_of_def world_after_def

declare run.simps [simp del]

lemmas run_simps = run.simps op_defs http_defs outcome_defs Let_def

text \<open>Lists of form values.\<close>

lemma fold_values_Add: "fold (values_Add k) vs f = f @ map (Pair k) vs"
  by (induction vs arbitrary: f) (simp_all add: values_Add_def)

lemma filter_fold_values_Set:
  "filter (\<lambda>kv. fst kv = k) (fold (\<lambda>kv. values_Set (fst kv) (snd kv)) m f) =
     (if filter (\<lambda>kv. fst kv = k) m = [] then filter (\<lambda>kv. fst kv = k) f
      else [last (filter (\<lambda>kv. fst kv = k) m)])"
  by (induction m arbitrary: f) (auto simp add: values_Set_def cong: rev_conj_cong)

lemma values_after_SetFormData:
  "map snd (filter (\<lambda>kv. fst kv = k) (fold (\<lambda>kv. values_Set (fst kv) (snd kv)) m f)) =
     (if map snd (filter (\<lambda>kv. fst kv = k) m) = [] then map snd (filter (\<lambda>kv. fst kv = k) f)
      else [last (map snd (filter (\<lambda>kv. fst kv = k) m))])"
  by (simp add: filter_fold_values_Set last_map)

lemma filter_other_key: "k \<noteq> k' \<Longrightarrow> filter (\<lambda>kv. fst kv = k) (map (Pair k') vs) = []"
  by (induction vs) simp_all

text \<open>Cells of the store.\<close>

lemma PStringSlice_new_string: "PStringSlice (h @ [StringCell s]) p = PStringSlice h p"
  by (cases p) (auto simp add: PStringSlice_def deref_def nth_append)

lemma deref_extended:
  assumes "take (length h) h' = h" and "a < length h"
  shows "deref h' a = deref h a"
proof -
  have "h' = h @ drop (length h) h'"
    using assms(1) append_take_drop_id [of "length h" h'] by simp
  then obtain d where h': "h' = h @ d" ..
  show ?thesis using assms(2) by (simp add: h' deref_def nth_append)
qed

text \<open>What a call leaves of the client and of the store, for every operation.\<close>

lemma client_run: "client (world_after (run E n a w)) = client w"
  by (cases n)
    (simp_all add: run_simps split: prod.split option.split sum.split outcome.split)

lemma heap_run: "take (length (heap w)) (heap (world_after (run E n a w))) = heap w"
  by (cases n)
    (simp_all add: run_simps split: prod.split option.split sum.split outcome.split)

text \<open>The concrete environment, evaluated.\<close>

lemma demo_fields:
  "net demo = demo_net"
  "checkForError demo = checkForError_spec"
  "FormData demo = demo_FormData"
  "GetQueryParams demo p = (if p then Inr [(''max'', ''10'')] else Inl (Foreign ''unsupported value''))"
  "getID demo resp = (case map_of (Header resp) ''Location'' of None \<Rightarrow> '''' | Some l \<Rightarrow> l)"
  "getAdminRealmURL demo g realm path = concat (map (\<lambda>s. CHR ''/'' # s) (''admin'' # ''realms'' # realm # path))"
  "getRealmURL demo g realm path = concat (map (\<lambda>s. CHR ''/'' # s) (''realms'' # realm # path))"
  "GetRequestWithBearerAuth demo g ctx token =
     \<lparr>Context = ctx, AuthToken = token, Method = '''', URL = '''', Body = NoBody,
      QueryParam = [], Form = [], Result = None\<rparr>"
  by (simp_all add: demo_def)

lemma world0_fields:
  "exchanges world0 = []"
  "heap world0 = []"
  by (simp_all add: world0_def)

lemma args0_fields:
  "arg_params args0 = False"
  "arg_userID args0 = []"
  by (simp_all add: args0_def)

lemmas eval_simps = run.simps demo_fields demo_net_def checkForError_spec_def is2xx_def args0_def
  world0_def http_defs const_defs Let_def

lemma eval_GetUserByID:
  "run demo OpGetUserByID args0 world0 =
     (Return (400, GoNil, Some (Wrap (New ''userID shall not be empty'') ''could not get user by id'')),
      world0)"
  by (simp add: GetUserByID_def eval_simps)

lemma eval_GetUsers:
  "run demo OpGetUsers args0 world0 =
     (Return (400, GoNil, Some (Wrap (Foreign ''unsupported value'') ''could not get users'')), world0)"
  by (simp add: GetUsers_def eval_simps)

lemma eval_GetRealmRoles:
  "run demo OpGetRealmRoles args0 world0 =
     (Return (500, GoNil, Some (Wrap (Foreign ''unsupported value'') ''could not get realm roles'')),
      world0)"
  by (simp add: GetRealmRoles_def eval_simps)

lemma eval_DeleteUser:
  "run demo OpDeleteUser args0 world0 =
     (Return (404, NoValue, Some (Wrap (Status 404 ''not found'') ''could not delete user'')),
      world0\<lparr>exchanges :=
        [\<lparr>sent = \<lparr>Context = (), AuthToken = ''secret'', Method = ''DELETE'',
                    URL = ''/admin/realms/master/users/'', Body = NoBody, QueryParam = [],
                    Form = [], Result = None\<rparr>,
          received = Some \<lparr>StatusCode = 404, RespBody = ''not found'', Header = []\<rparr>,
          failure = None\<rparr>]\<rparr>)"
  by (simp add: DeleteUser_def eval_simps)


lemma eval_DeleteUser_refused:
  "run demo_refused OpDeleteUser args1 world0 =
     (Panic,
      world0\<lparr>exchanges :=
        [\<lparr>sent = \<lparr>Context = (), AuthToken = ''secret'', Method = ''DELETE'',
                    URL = ''/admin/realms/master/users/42'', Body = NoBody, QueryParam = [],
                    Form = [], Result = None\<rparr>,
          received = None,
          failure = Some (Foreign ''refused by a hook'')\<rparr>]\<rparr>)"
  by (simp add: DeleteUser_def demo_refused_def args1_def eval_simps)

lemma eval_GetRequestingPartyPermissions:
  "new_exchanges world1 (world_after (run demo OpGetRequestingPartyPermissions args1 world1)) =
     [\<lparr>sent = \<lparr>Context = (), AuthToken = ''secret'', Method = ''POST'',
               URL = ''/realms/master/protocol/openid-connect/token'', Body = NoBody,
               QueryParam = [],
               Form = [(''response_mode'', ''permissions''), (''permission'', ''res#read''),
                       (''permission'', ''res#write'')],
               Result = Some TPermissions\<rparr>,
       received = Some \<lparr>StatusCode = 200, RespBody = ''{}'', Header = [(''Location'', ''users/42'')]\<rparr>,
       failure = None\<rparr>]"
  by (simp add: GetRequestingPartyPermissions_def getRequestingParty_def world1_def args1_def
        new_exchanges_def demo_FormData_def PString_def PStringSlice_def deref_def
        values_Set_def values_Add_def outcome_defs eval_simps)

lemma demo_response_mode:
  "map snd (filter (\<lambda>kv. fst kv = ''response_mode'') (FormData demo h opts)) =
     (case ResponseMode opts of None \<Rightarrow> [] | Some p \<Rightarrow> [PString h (Some p)])"
  by (simp add: demo_fields demo_FormData_def split: option.split)

lemma demo_grant_type:
  "map snd (filter (\<lambda>kv. fst kv = ''grant_type'') (FormData demo h opts)) =
     (case GrantType opts of None \<Rightarrow> [] | Some p \<Rightarrow> [PString h (Some p)])"
  by (simp add: demo_fields demo_FormData_def split: option.split)

lemma demo_no_permission_key:
  "filter (\<lambda>kv. fst kv = ''permission'') (FormData demo h opts) = []"
  "filter (\<lambda>kv. fst kv = ''permission'') (Form (GetRequestWithBearerAuth demo g ctx token)) = []"
  by (simp_all add: demo_fields demo_FormData_def split: option.split)

text \<open>The requests of the operations that C5 names, with the exchange they are part of.\<close>

lemma endpoint_run:
  "map (\<lambda>x. (Method (sent x), URL (sent x))) (new_exchanges w (world_after (run E n a w))) =
     (if rejected E n a then [] else [(verb_of n, url_of E (client w) (heap w) n a)])"
  by (cases n)
    (simp_all add: run_simps new_exchanges_def rejected_def params_failed_def const_defs
       split: prod.split option.split sum.split outcome.split)

lemma new_DeleteUser:
  "\<exists>resp err. new_exchanges w (world_after (DeleteUser E ctx token realm userID w)) =
     [\<lparr>sent = (GetRequestWithBearerAuth E (client w) ctx token)
          \<lparr>Method := ''DELETE'',
           URL := getAdminRealmURL E (client w) realm [''users'', userID]\<rparr>,
       received = resp, failure = err\<rparr>]"
  by (simp add: DeleteUser_def http_defs const_defs outcome_defs new_exchanges_def Let_def
        split: prod.split)

lemma new_SetPassword:
  "\<exists>resp err. new_exchanges w
       (world_after (SetPassword E ctx token userID realm password temporary w)) =
     [\<lparr>sent = (GetRequestWithBearerAuth E (client w) ctx token)
          \<lparr>Method := ''PUT'',
           URL := getAdminRealmURL E (client w) realm [''users'', userID, ''reset-password''],
           Body := SetPasswordBody
             \<lparr>Password = Some (length (heap w)),
              Temporary = Some (Suc (length (heap w))),
              Type' = Some (Suc (Suc (length (heap w))))\<rparr>\<rparr>,
       received = resp, failure = err\<rparr>]"
  by (simp add: SetPassword_def http_defs const_defs outcome_defs new_exchanges_def Let_def
        split: prod.split)

lemma heap_SetPassword:
  "heap (world_after (SetPassword E ctx token userID realm password temporary w)) =
     heap w @ [StringCell password, BoolCell temporary, StringCell ''password'']"
  by (simp add: SetPassword_def http_defs const_defs outcome_defs Let_def split: prod.split)

lemma new_GetRequestingPartyPermissions:
  "\<exists>resp err. new_exchanges w
       (world_after (GetRequestingPartyPermissions E ctx token realm options w)) =
     [\<lparr>sent = (GetRequestWithBearerAuth E (client w) ctx token)
          \<lparr>Method := ''POST'',
           URL := getRealmURL E (client w) realm [openIDConnect (Config (client w)), ''token''],
           Form :=
             fold (\<lambda>kv. values_Set (fst kv) (snd kv))
               (FormData E (heap w @ [StringCell ''permissions''])
                  (options\<lparr>ResponseMode := Some (length (heap w))\<rparr>))
               (Form (GetRequestWithBearerAuth E (client w) ctx token))
             @ map (Pair ''permission'') (PStringSlice (heap w) (Permissions options)),
           Result := Some TPermissions\<rparr>,
       received = resp, failure = err\<rparr>]"
  by (simp add: GetRequestingPartyPermissions_def getRequestingParty_def http_defs const_defs
        outcome_defs new_exchanges_def Let_def fold_values_Add PStringSlice_new_string
        split: prod.split option.split)

lemma new_GetRequestingPartyPermissionDecision:
  "\<exists>resp err. new_exchanges w
       (world_after (GetRequestingPartyPermissionDecision E ctx token realm options w)) =
     [\<lparr>sent = (GetRequestWithBearerAuth E (client w) ctx token)
          \<lparr>Method := ''POST'',
           URL := getRealmURL E (client w) realm [openIDConnect (Config (client w)), ''token''],
           Form :=
             fold (\<lambda>kv. values_Set (fst kv) (snd kv))
               (FormData E (heap w @ [StringCell ''decision''])
                  (options\<lparr>ResponseMode := Some (length (heap w))\<rparr>))
               (Form (GetRequestWithBearerAuth E (client w) ctx token))
             @ map (Pair ''permission'') (PStringSlice (heap w) (Permissions options)),
           Result := Some TDecision\<rparr>,
       received = resp, failure = err\<rparr>]"
  by (simp add: GetRequestingPartyPermissionDecision_def getRequestingParty_def http_defs
        const_defs outcome_defs new_exchanges_def Let_def fold_values_Add
        PStringSlice_new_string split: prod.split option.split)

lemma new_EvaluatePermission:
  "\<exists>resp err. new_exchanges w
       (world_after (EvaluatePermission E ctx token realm audience response_mode permissions w)) =
     [\<lparr>sent = (GetRequestWithBearerAuth E (client w) ctx token)
          \<lparr>Method := ''POST'',
           URL := getRealmURL E (client w) realm [openIDConnect (Config (client w)), ''token''],
           Form :=
             fold (\<lambda>kv. values_Set (fst kv) (snd kv))
               (FormData E
                  (heap w @ [StringCell ''urn:ietf:params:oauth:grant-type:uma-ticket'',
                             StringCell audience, StringCell response_mode,
                             StringsCell permissions])
                  \<lparr>GrantType = Some (length (heap w)),
                   Audience = Some (Suc (length (heap w))),
                   ResponseMode = Some (Suc (Suc (length (heap w)))),
                   Permissions = Some (Suc (Suc (Suc (length (heap w)))))\<rparr>)
               (Form (GetRequestWithBearerAuth E (client w) ctx token))
             @ map (Pair ''permission'') permissions,
           Result := Some TJWT\<rparr>,
       received = resp, failure = err\<rparr>]"
  by (simp add: EvaluatePermission_def GetRequestingPartyToken_def getRequestingParty_def
        http_defs const_defs outcome_defs new_exchanges_def Let_def fold_values_Add
        PStringSlice_def deref_def nth_append split: prod.split option.split outcome.split)

lemma map_snd_Pair: "map (snd \<circ> Pair k) vs = vs"
  by (induction vs) simp_all

section \<open>Errors (C1, C3)\<close>




text \<open>
  When the exchange of a call failed and it has a response object, and \<^verbatim>\<open>checkForError\<close>
  is as the spec describes it, the operation returns an error that wraps its
  description.
\<close>

lemma answered_failure_wraps_description:
  assumes "checkForError E = checkForError_spec"
    and "new_exchanges w (world_after (run E n a w)) = [x]"
    and "received x = Some r"
    and "exchange_failed x"
  shows "\<exists>st v err. outcome_of (run E n a w) = Return (st, v, Some err) \<and> wraps err (description n)"
proof -
  have "\<forall>y. new_exchanges w (world_after (run E n a w)) = [y] \<longrightarrow> received y = Some r \<longrightarrow>
          (failure y \<noteq> None \<or> \<not> is2xx (StatusCode r)) \<longrightarrow>
          (\<exists>st v err. outcome_of (run E n a w) = Return (st, v, Some err)
             \<and> wraps err (description n))"
    using assms(1)
    by (cases n)
      (simp_all add: run_simps new_exchanges_def checkForError_spec_def
         split: prod.split option.split sum.split outcome.split)
  moreover have "failure x \<noteq> None \<or> \<not> is2xx (StatusCode r)"
    using assms(3,4) by (simp add: exchange_failed_def)
  ultimately show ?thesis using assms(2,3) by blast
qed

text \<open>
  C3. When the exchange of a call failed without a response object (the client library
  gives an error and a nil response when a request cannot be built or a hook refuses
  it), no operation returns an error: each reads \<^verbatim>\<open>resp.StatusCode()\<close> and panics,
  whatever \<^verbatim>\<open>checkForError\<close> does.
\<close>

theorem no_response_panics:
  assumes "new_exchanges w (world_after (run E n a w)) = [x]"
    and "received x = None"
  shows "outcome_of (run E n a w) = Panic"
proof -
  have "\<forall>y. new_exchanges w (world_after (run E n a w)) = [y] \<and> received y = None \<longrightarrow>
          outcome_of (run E n a w) = Panic"
    by (cases n)
      (simp_all add: run_simps new_exchanges_def
         split: prod.split option.split sum.split outcome.split)
  then show ?thesis using assms by blast
qed

theorem no_response_panics_witness:
  "(\<exists>x. new_exchanges world0 (world_after (run demo_refused OpDeleteUser args1 world0)) = [x]
        \<and> received x = None \<and> failure x = Some (Foreign ''refused by a hook''))
   \<and> outcome_of (run demo_refused OpDeleteUser args1 world0) = Panic"
proof -
  let ?x = "\<lparr>sent = \<lparr>Context = (), AuthToken = ''secret'', Method = ''DELETE'',
                       URL = ''/admin/realms/master/users/42'', Body = NoBody, QueryParam = [],
                       Form = [], Result = None\<rparr>,
            received = None,
            failure = Some (Foreign ''refused by a hook'')\<rparr> :: (unit, unit, unit, unit) exchange"
  have n: "new_exchanges world0 (world_after (run demo_refused OpDeleteUser args1 world0)) = [?x]"
    by (simp add: eval_DeleteUser_refused new_exchanges_def world0_fields outcome_defs)
  have r: "received ?x = None"
    by simp
  from no_response_panics [OF n r] n show ?thesis
    by simp
qed

section \<open>Status codes and requests (C2, C4, C5)\<close>

text \<open>
  C2, amended. A call that is not rejected makes one exchange, and when the exchange has
  a response object the call returns, as its first value, the status code of that
  response object, whether the call succeeds or fails. A rejected call makes no exchange
  and returns a status of its own: \<^verbatim>\<open>http.StatusBadRequest\<close> (400), or
  \<^verbatim>\<open>http.StatusInternalServerError\<close> (500) in \<^verbatim>\<open>GetRealmRoles\<close>.
\<close>

theorem status_passed_through:
  "(\<not> rejected E n a \<longrightarrow>
      (\<exists>x. new_exchanges w (world_after (run E n a w)) = [x]
         \<and> (\<forall>r. received x = Some r \<longrightarrow>
               (\<exists>v e. outcome_of (run E n a w) = Return (StatusCode r, v, e)))))
   \<and> (rejected E n a \<longrightarrow>
        new_exchanges w (world_after (run E n a w)) = []
        \<and> (\<exists>v e. outcome_of (run E n a w) = Return (local_status n, v, e)))
   \<and> local_status n = (if n = OpGetRealmRoles then 500 else 400)"
  by (cases n)
    (simp_all add: run_simps new_exchanges_def rejected_def params_failed_def const_defs
       split: prod.split option.split sum.split outcome.split)

text \<open>
  The status is not always one a server sent: \<^verbatim>\<open>GetUserByID\<close> with the empty user id
  returns a status, and there is no exchange it could come from.
\<close>

theorem status_passed_through_counterexample:
  "\<not> (\<exists>x r v e. x \<in> set (new_exchanges world0 (world_after (run demo OpGetUserByID args0 world0)))
         \<and> received x = Some r
         \<and> outcome_of (run demo OpGetUserByID args0 world0) = Return (StatusCode r, v, e))"
  by (simp add: eval_GetUserByID new_exchanges_def outcome_defs)

theorem status_passed_through_witness:
  "new_exchanges world0 (world_after (run demo OpGetRealmRoles args0 world0)) = []
   \<and> (\<exists>v e. outcome_of (run demo OpGetRealmRoles args0 world0) = Return (500, v, e))
   \<and> (\<exists>x r v e. new_exchanges world0 (world_after (run demo OpDeleteUser args0 world0)) = [x]
         \<and> received x = Some r \<and> StatusCode r = 404
         \<and> outcome_of (run demo OpDeleteUser args0 world0) = Return (StatusCode r, v, e))"
  using status_passed_through [of demo OpGetRealmRoles args0 world0]
    status_passed_through [of demo OpDeleteUser args0 world0]
  by (simp add: rejected_def params_failed_def demo_fields args0_fields eval_GetRealmRoles
        eval_DeleteUser new_exchanges_def world0_fields outcome_defs const_defs)

text \<open>
  C4, amended. A call only appends to the exchanges: none when it is rejected, exactly
  one otherwise. No operation makes a second exchange, whatever the response.
\<close>

theorem requests_issued:
  "exchanges (world_after (run E n a w)) =
     exchanges w @ new_exchanges w (world_after (run E n a w))
   \<and> length (new_exchanges w (world_after (run E n a w))) = (if rejected E n a then 0 else 1)"
  by (cases n)
    (simp_all add: run_simps new_exchanges_def rejected_def params_failed_def
       split: prod.split option.split sum.split outcome.split)

text \<open>
  Not every call makes a request: \<^verbatim>\<open>GetUserByID\<close> with the empty user id makes none.
\<close>

theorem requests_issued_counterexample:
  "\<not> length (new_exchanges world0 (world_after (run demo OpGetUserByID args0 world0))) = 1"
  by (simp add: eval_GetUserByID new_exchanges_def outcome_defs)

theorem requests_issued_witness:
  "exchanges (world_after (run demo OpGetUsers args0 world0)) = []
   \<and> length (new_exchanges world0 (world_after (run demo OpGetUsers args0 world0))) = 0
   \<and> length (new_exchanges world0 (world_after (run demo OpDeleteUser args0 world0))) = 1"
  using requests_issued [of demo OpGetUsers args0 world0]
    requests_issued [of demo OpDeleteUser args0 world0]
  by (simp add: rejected_def params_failed_def demo_fields args0_fields eval_GetUsers
        eval_DeleteUser world0_fields new_exchanges_def outcome_defs)

text \<open>
  C5. Every operation that is not rejected sends one request, with the verb and to the
  URL of its endpoint (\<open>verb_of\<close>, \<open>url_of\<close>); a rejected one sends none. The requests of
  the operations the claim names, in full: \<^verbatim>\<open>DeleteUser\<close> sends \<^verbatim>\<open>DELETE\<close> to
  \<^verbatim>\<open>users/{userID}\<close> under the admin realm URL, and nothing else is set in the request.
  \<^verbatim>\<open>SetPassword\<close> sends \<^verbatim>\<open>PUT\<close> to \<^verbatim>\<open>users/{userID}/reset-password\<close> with a body whose three
  fields point to three new cells: the given password, the given temporary flag, and
  the type "password". The requesting-party calls send \<^verbatim>\<open>POST\<close> to the token endpoint of
  the realm's OpenID Connect path; the form is the form data of the options, set into
  the form of the initial request, followed by one value of the key "permission" for
  every element of the permissions, in their order. When neither the form data nor the
  initial request has a value of the key "permission", these are all its values.
\<close>

theorem verb_and_url:
  "map (\<lambda>x. (Method (sent x), URL (sent x))) (new_exchanges w (world_after (run E n a w))) =
     (if rejected E n a then [] else [(verb_of n, url_of E (client w) (heap w) n a)])
   \<and> map sent (new_exchanges w (world_after (DeleteUser E ctx token realm userID w))) =
       [(GetRequestWithBearerAuth E (client w) ctx token)
          \<lparr>Method := ''DELETE'',
           URL := getAdminRealmURL E (client w) realm [''users'', userID]\<rparr>]
   \<and> map sent (new_exchanges w
        (world_after (SetPassword E ctx token userID realm password temporary w))) =
       [(GetRequestWithBearerAuth E (client w) ctx token)
          \<lparr>Method := ''PUT'',
           URL := getAdminRealmURL E (client w) realm [''users'', userID, ''reset-password''],
           Body := SetPasswordBody
             \<lparr>Password = Some (length (heap w)),
              Temporary = Some (Suc (length (heap w))),
              Type' = Some (Suc (Suc (length (heap w))))\<rparr>\<rparr>]
   \<and> heap (world_after (SetPassword E ctx token userID realm password temporary w)) =
       heap w @ [StringCell password, BoolCell temporary, StringCell ''password'']
   \<and> map sent (new_exchanges w
        (world_after (GetRequestingPartyPermissions E ctx token realm options w))) =
       [(GetRequestWithBearerAuth E (client w) ctx token)
          \<lparr>Method := ''POST'',
           URL := getRealmURL E (client w) realm [openIDConnect (Config (client w)), ''token''],
           Form :=
             fold (\<lambda>kv. values_Set (fst kv) (snd kv))
               (FormData E (heap w @ [StringCell ''permissions''])
                  (options\<lparr>ResponseMode := Some (length (heap w))\<rparr>))
               (Form (GetRequestWithBearerAuth E (client w) ctx token))
             @ map (Pair ''permission'') (PStringSlice (heap w) (Permissions options)),
           Result := Some TPermissions\<rparr>]
   \<and> map sent (new_exchanges w
        (world_after (GetRequestingPartyPermissionDecision E ctx token realm options w))) =
       [(GetRequestWithBearerAuth E (client w) ctx token)
          \<lparr>Method := ''POST'',
           URL := getRealmURL E (client w) realm [openIDConnect (Config (client w)), ''token''],
           Form :=
             fold (\<lambda>kv. values_Set (fst kv) (snd kv))
               (FormData E (heap w @ [StringCell ''decision''])
                  (options\<lparr>ResponseMode := Some (length (heap w))\<rparr>))
               (Form (GetRequestWithBearerAuth E (client w) ctx token))
             @ map (Pair ''permission'') (PStringSlice (heap w) (Permissions options)),
           Result := Some TDecision\<rparr>]
   \<and> map sent (new_exchanges w
        (world_after (EvaluatePermission E ctx token realm audience response_mode permissions w))) =
       [(GetRequestWithBearerAuth E (client w) ctx token)
          \<lparr>Method := ''POST'',
           URL := getRealmURL E (client w) realm [openIDConnect (Config (client w)), ''token''],
           Form :=
             fold (\<lambda>kv. values_Set (fst kv) (snd kv))
               (FormData E
                  (heap w @ [StringCell ''urn:ietf:params:oauth:grant-type:uma-ticket'',
                             StringCell audience, StringCell response_mode,
                             StringsCell permissions])
                  \<lparr>GrantType = Some (length (heap w)),
                   Audience = Some (Suc (length (heap w))),
                   ResponseMode = Some (Suc (Suc (length (heap w)))),
                   Permissions = Some (Suc (Suc (Suc (length (heap w)))))\<rparr>)
               (Form (GetRequestWithBearerAuth E (client w) ctx token))
             @ map (Pair ''permission'') permissions,
           Result := Some TJWT\<rparr>]
   \<and> ((\<forall>h opts. filter (\<lambda>kv. fst kv = ''permission'') (FormData E h opts) = [])
        \<and> filter (\<lambda>kv. fst kv = ''permission'')
            (Form (GetRequestWithBearerAuth E (client w) ctx token)) = [] \<longrightarrow>
        map (\<lambda>x. map snd (filter (\<lambda>kv. fst kv = ''permission'') (Form (sent x))))
          (new_exchanges w
            (world_after (GetRequestingPartyPermissions E ctx token realm options w))) =
          [PStringSlice (heap w) (Permissions options)]
        \<and> map (\<lambda>x. map snd (filter (\<lambda>kv. fst kv = ''permission'') (Form (sent x))))
          (new_exchanges w
            (world_after (GetRequestingPartyPermissionDecision E ctx token realm options w))) =
          [PStringSlice (heap w) (Permissions options)]
        \<and> map (\<lambda>x. map snd (filter (\<lambda>kv. fst kv = ''permission'') (Form (sent x))))
          (new_exchanges w
            (world_after (EvaluatePermission E ctx token realm audience response_mode permissions w))) =
          [permissions])"
proof -
  obtain r1 e1 r2 e2 r3 e3 r4 e4 r5 e5 where sent:
    "new_exchanges w (world_after (DeleteUser E ctx token realm userID w)) =
       [\<lparr>sent = (GetRequestWithBearerAuth E (client w) ctx token)
            \<lparr>Method := ''DELETE'',
             URL := getAdminRealmURL E (client w) realm [''users'', userID]\<rparr>,
         received = r1, failure = e1\<rparr>]"
    "new_exchanges w
         (world_after (SetPassword E ctx token userID realm password temporary w)) =
       [\<lparr>sent = (GetRequestWithBearerAuth E (client w) ctx token)
            \<lparr>Method := ''PUT'',
             URL := getAdminRealmURL E (client w) realm [''users'', userID, ''reset-password''],
             Body := SetPasswordBody
               \<lparr>Password = Some (length (heap w)),
                Temporary = Some (Suc (length (heap w))),
                Type' = Some (Suc (Suc (length (heap w))))\<rparr>\<rparr>,
         received = r2, failure = e2\<rparr>]"
    "new_exchanges w
         (world_after (GetRequestingPartyPermissions E ctx token realm options w)) =
       [\<lparr>sent = (GetRequestWithBearerAuth E (client w) ctx token)
            \<lparr>Method := ''POST'',
             URL := getRealmURL E (client w) realm [openIDConnect (Config (client w)), ''token''],
             Form :=
               fold (\<lambda>kv. values_Set (fst kv) (snd kv))
                 (FormData E (heap w @ [StringCell ''permissions''])
                    (options\<lparr>ResponseMode := Some (length (heap w))\<rparr>))
                 (Form (GetRequestWithBearerAuth E (client w) ctx token))
               @ map (Pair ''permission'') (PStringSlice (heap w) (Permissions options)),
             Result := Some TPermissions\<rparr>,
         received = r3, failure = e3\<rparr>]"
    "new_exchanges w
         (world_after (GetRequestingPartyPermissionDecision E ctx token realm options w)) =
       [\<lparr>sent = (GetRequestWithBearerAuth E (client w) ctx token)
            \<lparr>Method := ''POST'',
             URL := getRealmURL E (client w) realm [openIDConnect (Config (client w)), ''token''],
             Form :=
               fold (\<lambda>kv. values_Set (fst kv) (snd kv))
                 (FormData E (heap w @ [StringCell ''decision''])
                    (options\<lparr>ResponseMode := Some (length (heap w))\<rparr>))
                 (Form (GetRequestWithBearerAuth E (client w) ctx token))
               @ map (Pair ''permission'') (PStringSlice (heap w) (Permissions options)),
             Result := Some TDecision\<rparr>,
         received = r4, failure = e4\<rparr>]"
    "new_exchanges w
         (world_after (EvaluatePermission E ctx token realm audience response_mode permissions w)) =
       [\<lparr>sent = (GetRequestWithBearerAuth E (client w) ctx token)
            \<lparr>Method := ''POST'',
             URL := getRealmURL E (client w) realm [openIDConnect (Config (client w)), ''token''],
             Form :=
               fold (\<lambda>kv. values_Set (fst kv) (snd kv))
                 (FormData E
                    (heap w @ [StringCell ''urn:ietf:params:oauth:grant-type:uma-ticket'',
                               StringCell audience, StringCell response_mode,
                               StringsCell permissions])
                    \<lparr>GrantType = Some (length (heap w)),
                     Audience = Some (Suc (length (heap w))),
                     ResponseMode = Some (Suc (Suc (length (heap w)))),
                     Permissions = Some (Suc (Suc (Suc (length (heap w)))))\<rparr>)
                 (Form (GetRequestWithBearerAuth E (client w) ctx token))
               @ map (Pair ''permission'') permissions,
             Result := Some TJWT\<rparr>,
         received = r5, failure = e5\<rparr>]"
    using new_DeleteUser [of w E ctx token realm userID]
      new_SetPassword [of w E ctx token userID realm password temporary]
      new_GetRequestingPartyPermissions [of w E ctx token realm options]
      new_GetRequestingPartyPermissionDecision [of w E ctx token realm options]
      new_EvaluatePermission [of w E ctx token realm audience response_mode permissions]
    by blast
  show ?thesis
    by (simp add: sent endpoint_run heap_SetPassword filter_fold_values_Set map_snd_Pair)
qed

theorem verb_and_url_witness:
  "map (\<lambda>x. (Method (sent x), URL (sent x)))
     (new_exchanges world1
       (world_after (run demo OpUpdateUser (args1\<lparr>arg_user := \<lparr>ID = Some 0\<rparr>\<rparr>) world1))) =
     [(''PUT'', ''/admin/realms/master/users/decision'')]
   \<and> map (\<lambda>x. (Method (sent x), URL (sent x)))
       (new_exchanges world0 (world_after (run demo OpGetUsers args0 world0))) = []
   \<and> map (\<lambda>x. map snd (filter (\<lambda>kv. fst kv = ''permission'') (Form (sent x))))
       (new_exchanges world1
         (world_after (EvaluatePermission demo () ''secret'' ''master'' ''app'' ''decision''
            [''res#read''] world1))) = [[''res#read'']]"
  using demo_no_permission_key
    verb_and_url [of world1 demo OpUpdateUser "args1\<lparr>arg_user := \<lparr>ID = Some 0\<rparr>\<rparr>" "()"
      "''secret''" "''master''" "''42''" "''pw''" True "arg_options args1" "''app''"
      "''decision''" "[''res#read'']"]
    verb_and_url [of world0 demo OpGetUsers args0 "()" "''secret''" "''master''" "''42''"
      "''pw''" True "arg_options args0" "''app''" "''decision''" "[''res#read'']"]
  by (simp add: rejected_def params_failed_def demo_fields args0_def args1_def world1_def
        world0_def PString_def deref_def)

section \<open>What a call leaves unchanged (C6, C7)\<close>

text \<open>
  C6. The operations take their structures by value; what a caller shares with an
  operation are the cells behind the pointers of its structures. Every cell of the store
  keeps its content over every call: the store after the call starts with the store
  before it, so what a caller reads through a pointer it held before the call is what it
  read before.
\<close>

theorem caller_cells_unchanged:
  "take (length (heap w)) (heap (world_after (run E n a w))) = heap w
   \<and> (valid_ptr (heap w) p \<longrightarrow>
        PString (heap (world_after (run E n a w))) p = PString (heap w) p
        \<and> PStringSlice (heap (world_after (run E n a w))) p = PStringSlice (heap w) p)"
proof -
  have "deref (heap (world_after (run E n a w))) x = deref (heap w) x" if "x < length (heap w)" for x
    using heap_run that by (rule deref_extended)
  then show ?thesis
    by (simp add: heap_run valid_ptr_def PString_def PStringSlice_def split: option.split)
qed

theorem caller_cells_unchanged_witness:
  "take (length (heap world1))
     (heap (world_after (run demo OpGetRequestingPartyPermissions args1 world1))) = heap world1
   \<and> PString (heap (world_after (run demo OpGetRequestingPartyPermissions args1 world1))) (Some 0) =
       ''decision''
   \<and> PStringSlice (heap (world_after (run demo OpGetRequestingPartyPermissions args1 world1))) (Some 1) =
       [''res#read'', ''res#write'']"
  using caller_cells_unchanged [of world1 demo OpGetRequestingPartyPermissions args1 "Some 0"]
    caller_cells_unchanged [of world1 demo OpGetRequestingPartyPermissions args1 "Some 1"]
  by (simp add: valid_ptr_def world1_def PString_def PStringSlice_def deref_def)

text \<open>
  C7. Every call leaves the client value as it was, so the client after two calls is the
  same in either order.
\<close>

theorem client_unchanged:
  "client (world_after (run E n a w)) = client w
   \<and> client (world_after (run E n2 a2 (world_after (run E n1 a1 w)))) =
       client (world_after (run E n1 a1 (world_after (run E n2 a2 w))))"
  by (simp add: client_run)

theorem client_unchanged_witness:
  "client (world_after (run demo OpCreateUser args1 world0)) = client world0
   \<and> client (world_after (run demo OpDeleteUser args0 (world_after (run demo OpGetUsers args0 world0)))) =
       client (world_after (run demo OpGetUsers args0 (world_after (run demo OpDeleteUser args0 world0))))"
  using client_unchanged [of demo OpCreateUser args1 world0 OpDeleteUser args0 OpGetUsers args0]
  by simp

section \<open>Single operations (C8, C9, C10)\<close>

text \<open>
  C8. \<^verbatim>\<open>GetUserByID\<close> with the empty \<^verbatim>\<open>userID\<close> returns \<^verbatim>\<open>http.StatusBadRequest\<close> (400), a nil
  user and the error "userID shall not be empty" wrapped with the operation's
  description, and leaves the world as it was: no request is made. With any other
  \<^verbatim>\<open>userID\<close> one request is made, a \<^verbatim>\<open>GET\<close> on \<^verbatim>\<open>users/{userID}\<close> under the admin realm URL.
\<close>

theorem GetUserByID_empty_userID:
  "GetUserByID E ctx accessToken realm '''' w =
     (Return (400, GoNil, Some (Wrap (New ''userID shall not be empty'') ''could not get user by id'')), w)
   \<and> (userID \<noteq> '''' \<longrightarrow>
        (\<exists>x. exchanges (world_after (GetUserByID E ctx accessToken realm userID w)) = exchanges w @ [x]
           \<and> Method (sent x) = ''GET''
           \<and> URL (sent x) = getAdminRealmURL E (client w) realm [''users'', userID]))"
  by (simp add: GetUserByID_def http_defs const_defs outcome_defs Let_def
        split: prod.split option.split)

theorem GetUserByID_empty_userID_witness:
  "GetUserByID demo () ''secret'' ''master'' '''' world0 =
     (Return (400, GoNil, Some (Wrap (New ''userID shall not be empty'') ''could not get user by id'')),
      world0)
   \<and> (\<exists>x. exchanges (world_after (GetUserByID demo () ''secret'' ''master'' ''42'' world0)) =
             exchanges world0 @ [x]
           \<and> Method (sent x) = ''GET''
           \<and> URL (sent x) = ''/admin/realms/master/users/42'')"
  using GetUserByID_empty_userID [of demo "()" "''secret''" "''master''" world0 "''42''"]
  by (simp add: demo_fields)

text \<open>
  C9. Let the form data of the options have, for a present response mode, the one value
  of the key "response_mode", and for a present grant type the one value of the key
  "grant_type". Then the request of \<^verbatim>\<open>GetRequestingPartyPermissions\<close> has the one
  response mode "permissions" and the request of \<^verbatim>\<open>GetRequestingPartyPermissionDecision\<close>
  the one response mode "decision", and both operations do the same whatever response
  mode the caller put into the options; the request of \<^verbatim>\<open>EvaluatePermission\<close> has the one
  grant type "urn:ietf:params:oauth:grant-type:uma-ticket", whatever its arguments.
\<close>

theorem response_mode_and_grant_type_fixed:
  assumes rm: "\<And>h opts. map snd (filter (\<lambda>kv. fst kv = ''response_mode'') (FormData E h opts)) =
                 (case ResponseMode opts of None \<Rightarrow> [] | Some p \<Rightarrow> [PString h (Some p)])"
    and gt: "\<And>h opts. map snd (filter (\<lambda>kv. fst kv = ''grant_type'') (FormData E h opts)) =
                 (case GrantType opts of None \<Rightarrow> [] | Some p \<Rightarrow> [PString h (Some p)])"
  shows "(\<exists>x. new_exchanges w (world_after (GetRequestingPartyPermissions E ctx token realm options w)) = [x]
           \<and> map snd (filter (\<lambda>kv. fst kv = ''response_mode'') (Form (sent x))) = [''permissions''])
       \<and> (\<exists>x. new_exchanges w
                 (world_after (GetRequestingPartyPermissionDecision E ctx token realm options w)) = [x]
           \<and> map snd (filter (\<lambda>kv. fst kv = ''response_mode'') (Form (sent x))) = [''decision''])
       \<and> (\<exists>x. new_exchanges w
                 (world_after (EvaluatePermission E ctx token realm audience response_mode permissions w)) = [x]
           \<and> map snd (filter (\<lambda>kv. fst kv = ''grant_type'') (Form (sent x))) =
                 [''urn:ietf:params:oauth:grant-type:uma-ticket''])
       \<and> GetRequestingPartyPermissions E ctx token realm (options\<lparr>ResponseMode := m\<rparr>) w =
           GetRequestingPartyPermissions E ctx token realm options w
       \<and> GetRequestingPartyPermissionDecision E ctx token realm (options\<lparr>ResponseMode := m\<rparr>) w =
           GetRequestingPartyPermissionDecision E ctx token realm options w"
  apply (intro conjI)
  subgoal
    by (simp add: GetRequestingPartyPermissions_def getRequestingParty_def http_defs const_defs
          outcome_defs Let_def new_exchanges_def fold_values_Add values_after_SetFormData
          filter_other_key rm PString_def deref_def split: prod.split option.split)
  subgoal
    by (simp add: GetRequestingPartyPermissionDecision_def getRequestingParty_def http_defs
          const_defs outcome_defs Let_def new_exchanges_def fold_values_Add
          values_after_SetFormData filter_other_key rm PString_def deref_def
          split: prod.split option.split)
  subgoal
    by (simp add: EvaluatePermission_def GetRequestingPartyToken_def getRequestingParty_def
          http_defs const_defs outcome_defs Let_def new_exchanges_def fold_values_Add
          values_after_SetFormData filter_other_key gt PString_def deref_def nth_append
          split: prod.split option.split outcome.split)
  subgoal
    by (simp add: GetRequestingPartyPermissions_def)
  subgoal
    by (simp add: GetRequestingPartyPermissionDecision_def)
  done

theorem response_mode_and_grant_type_fixed_witness:
  "PString (heap world1) (ResponseMode (arg_options args1)) = ''decision''
   \<and> (\<exists>x. new_exchanges world1 (world_after (run demo OpGetRequestingPartyPermissions args1 world1)) = [x]
         \<and> map snd (filter (\<lambda>kv. fst kv = ''response_mode'') (Form (sent x))) = [''permissions'']
         \<and> map snd (filter (\<lambda>kv. fst kv = ''permission'') (Form (sent x))) =
             [''res#read'', ''res#write''])"
  using response_mode_and_grant_type_fixed [OF demo_response_mode demo_grant_type,
      of world1 "()" "''secret''" "''master''" "arg_options args1" "''app''" "''decision''" "[]" None]
    eval_GetRequestingPartyPermissions
  by (simp add: world1_def args1_def PString_def deref_def)

text \<open>
  C10. \<^verbatim>\<open>AddClientRoleToUser\<close> returns what \<^verbatim>\<open>AddClientRolesToUser\<close> returns, and
  \<^verbatim>\<open>DeleteClientRoleFromUser\<close> what \<^verbatim>\<open>DeleteClientRolesFromUser\<close> returns, for all arguments
  and in every world: the same status and error, and the same world afterwards.
\<close>

theorem deprecated_wrappers_equal:
  "AddClientRoleToUser E ctx token realm idOfClient userID roles w =
     AddClientRolesToUser E ctx token realm idOfClient userID roles w
   \<and> DeleteClientRoleFromUser E ctx token realm idOfClient userID roles w =
     DeleteClientRolesFromUser E ctx token realm idOfClient userID roles w
   \<and> run E OpAddClientRoleToUser a w = run E OpAddClientRolesToUser a w
   \<and> run E OpDeleteClientRoleFromUser a w = run E OpDeleteClientRolesFromUser a w"
  by (simp add: run.simps AddClientRoleToUser_def DeleteClientRoleFromUser_def)

theorem deprecated_wrappers_equal_witness:
  "fst (AddClientRoleToUser demo () ''secret'' ''master'' ''9'' ''42'' [()] world0) =
     Return (200, None)
   \<and> fst (AddClientRolesToUser demo () ''secret'' ''master'' ''9'' ''42'' [()] world0) =
     Return (200, None)
   \<and> fst (DeleteClientRoleFromUser demo () ''secret'' ''master'' ''9'' ''42'' [()] world0) =
       Return (404, Some (Wrap (Status 404 ''not found'') ''could not delete client role from user''))
   \<and> fst (DeleteClientRolesFromUser demo () ''secret'' ''master'' ''9'' ''42'' [()] world0) =
       Return (404, Some (Wrap (Status 404 ''not found'') ''could not delete client role from user''))"
  using deprecated_wrappers_equal [of demo "()" "''secret''" "''master''" "''9''" "''42''" "[()]" world0 args0]
  by (simp add: AddClientRolesToUser_def DeleteClientRolesFromUser_def eval_simps)

end
